theory Spec2Isabelle
  imports Main "HOL-Library.Sublist" "HOL-Library.AList"
begin

section \<open>Python values\<close>

text \<open>
  The planner passes plain Python objects around: what \<^verbatim>\<open>json.loads\<close> returns, the
  dictionary \<^verbatim>\<open>generate_itinerary\<close> answers with, and the two entries of
  \<^verbatim>\<open>st.session_state\<close>. They are modelled by one datatype. A dictionary is an association
  list in insertion order with distinct keys. A float is kept as the numeral text that denotes it
  (\<^verbatim>\<open>0.7\<close> is \<open>PFloat ''0.7''\<close>): the program never computes with one, it only hands
  coordinates on to the map.
\<close>

datatype pyobj =
    PNone
  | PBool bool
  | PInt int
  | PFloat string
  | PStr string
  | PList "pyobj list"
  | PDict "(string \<times> pyobj) list"

text \<open>
  The exceptions of the rendering code. A \<^verbatim>\<open>ValueError\<close> comes from the location check of
  folium, which has two: a coordinate that is not a number, and a coordinate that is NaN.
\<close>

datatype value_error = Not_numeric pyobj | Contains_NaN

datatype py_error =
  KeyError string | TypeError | ZeroDivisionError | ValueError value_error | OverflowError

text \<open>\<^verbatim>\<open>d[k]\<close>: only a dictionary can be subscripted by a string.\<close>

fun getitem :: "pyobj \<Rightarrow> string \<Rightarrow> py_error + pyobj" where
  "getitem (PDict kvs) k = (case map_of kvs k of None \<Rightarrow> Inl (KeyError k) | Some v \<Rightarrow> Inr v)"
| "getitem _ k = Inl TypeError"

text \<open>\<^verbatim>\<open>d.get(k, default)\<close> on a dictionary.\<close>

definition dict_get :: "(string \<times> pyobj) list \<Rightarrow> string \<Rightarrow> pyobj \<Rightarrow> pyobj" where
  "dict_get kvs k dflt = (case map_of kvs k of None \<Rightarrow> dflt | Some v \<Rightarrow> v)"

text \<open>
  \<^verbatim>\<open>for x in v\<close>: a list yields its elements, a string its characters, a dictionary its keys;
  nothing else is iterable.
\<close>

fun iterate :: "pyobj \<Rightarrow> py_error + pyobj list" where
  "iterate (PList xs) = Inr xs"
| "iterate (PStr s) = Inr (map (\<lambda>c. PStr [c]) s)"
| "iterate (PDict kvs) = Inr (map (\<lambda>kv. PStr (fst kv)) kvs)"
| "iterate _ = Inl TypeError"

section \<open>Text of an integer\<close>

text \<open>What an f-string puts for an \<^verbatim>\<open>int\<close>: its decimal numeral, with a sign when negative.\<close>

definition digit_char :: "nat \<Rightarrow> char" where
  "digit_char d = ''0123456789'' ! d"

function str_nat :: "nat \<Rightarrow> string" where
  "str_nat n = (if n < 10 then [digit_char n] else str_nat (n div 10) @ [digit_char (n mod 10)])"
  by pat_completeness auto
termination
  by (relation "measure id") auto

declare str_nat.simps [simp del]

definition str_int :: "int \<Rightarrow> string" where
  "str_int i = (if i < 0 then CHR ''-'' # str_nat (nat (- i)) else str_nat (nat i))"

section \<open>The prompt (ai_planner.py, lines 36 to 49)\<close>

text \<open>\<^verbatim>\<open>sep.join(xs)\<close>.\<close>

fun join :: "string \<Rightarrow> string list \<Rightarrow> string" where
  "join sep [] = []"
| "join sep [x] = x"
| "join sep (x # y # ys) = x @ sep @ join sep (y # ys)"

text \<open>
  \<^verbatim>\<open>interests_str = ", ".join(interests) if interests else "General sightseeing"\<close>:
  an empty list is falsy.
\<close>

definition interests_str :: "string list \<Rightarrow> string" where
  "interests_str interests =
     (if interests \<noteq> [] then join '', '' interests else ''General sightseeing'')"

text \<open>
  \<^verbatim>\<open>notes_str = f"\nAdditional Notes: {notes}" if notes else ""\<close>: an empty string is falsy.
\<close>

definition notes_str :: "string \<Rightarrow> string" where
  "notes_str notes = (if notes \<noteq> [] then ''\<newline>Additional Notes: '' @ notes else '''')"

text \<open>The fixed pieces of the f-string, between the interpolated fields.\<close>

definition prompt_head :: string where
  "prompt_head =
     ''\<newline>    You are an expert travel planner specializing in budget travel for college students.'' @
     ''\<newline>    Create a detailed ''"

definition prompt_after_days :: string where
  "prompt_after_days = ''-day itinerary for ''"

definition prompt_after_destination :: string where
  "prompt_after_destination =
     ''.\<newline>    \<newline>    Constraints & Preferences:\<newline>    - Budget Level: ''"

definition prompt_after_budget :: string where
  "prompt_after_budget =
     ''. Prioritize free activities, student discounts, street food, and cheap transport.'' @
     ''\<newline>    - Interests: ''"

definition prompt_tail :: string where
  "prompt_tail =
     ''\<newline>    \<newline>    For every activity, you must provide realistic latitude and longitude coordinates. '' @
     ''\<newline>    Ensure locations for a single day are geographically close to minimize transit time and costs.'' @
     ''\<newline>    ''"

definition build_prompt :: "string \<Rightarrow> int \<Rightarrow> string \<Rightarrow> string list \<Rightarrow> string \<Rightarrow> string" where
  "build_prompt destination days budget interests notes =
     prompt_head @ str_int days @ prompt_after_days @ destination @ prompt_after_destination @
     budget @ prompt_after_budget @ interests_str interests @ ''.'' @ notes_str notes @
     prompt_tail"

section \<open>Marker colours (app.py, lines 150 to 154)\<close>

definition colors :: "string list" where
  "colors = [''red'', ''blue'', ''green'', ''purple'', ''orange'', ''darkred'', ''lightred'',
     ''beige'', ''darkblue'', ''darkgreen'', ''cadetblue'', ''darkpurple'', ''white'', ''pink'',
     ''lightblue'', ''lightgreen'', ''gray'', ''black'', ''lightgray'']"

text \<open>
  \<^verbatim>\<open>palette[(d - 1) % len(palette)]\<close> for an integer day number. Python's \<^verbatim>\<open>%\<close> with a
  positive modulus is never negative, as \<open>mod\<close> on \<open>int\<close>, so the index is in range for a
  palette that is not empty; on an empty palette Python raises ZeroDivisionError.
\<close>

definition palette_color :: "string list \<Rightarrow> int \<Rightarrow> py_error + string" where
  "palette_color palette d =
     (if palette = [] then Inl ZeroDivisionError
      else Inr (palette ! nat ((d - 1) mod int (length palette))))"

text \<open>
  \<^verbatim>\<open>day_color = colors[(day['day'] - 1) % len(colors)]\<close>, where \<^verbatim>\<open>day['day']\<close> is whatever
  the payload holds. An \<^verbatim>\<open>int\<close> is the intended case and a \<^verbatim>\<open>bool\<close> counts as 0 or 1; a
  float passes the arithmetic and fails as a list index; \<^verbatim>\<open>None\<close>, a string, a list and a
  dictionary fail at the subtraction. All failures are TypeError.
\<close>

fun day_color :: "pyobj \<Rightarrow> py_error + string" where
  "day_color (PInt d) = palette_color colors d"
| "day_color (PBool b) = palette_color colors (if b then 1 else 0)"
| "day_color _ = Inl TypeError"

section \<open>A reference decoder for JSON text\<close>

text \<open>
  \<^verbatim>\<open>json.loads\<close> is library code. The properties of the client below hold for any decoder; to
  run the client on concrete response texts, this section gives a decoder that follows the one
  of CPython 3.11 (\<^verbatim>\<open>json/decoder.py\<close>, \<^verbatim>\<open>json/scanner.py\<close> and their accelerated versions,
  whose error messages it produces). Strings are byte strings: a document is given by its UTF-8
  encoding, and indices count bytes, which is the count of Python for an ASCII document. The
  recursion limit of the interpreter and the limit on the digits of an integer are not modelled.
  The scanners work on the text that is left, together with the index reached in the document.
\<close>

text \<open>
  What a scanning function of the decoder does: it returns, it raises \<^verbatim>\<open>StopIteration(idx)\<close>
  (no value starts at \<open>idx\<close>), it raises \<^verbatim>\<open>JSONDecodeError(msg, s, pos)\<close>, or the counter
  that bounds the recursion of this model ran out (which does not happen, see
  \<open>scan_once_enough\<close> below).
\<close>

datatype 'a scan = Ok 'a | StopIteration nat | JSONDecodeError string nat | Exhausted

text \<open>\<^verbatim>\<open>WHITESPACE\<close>: space, tab, line feed and carriage return.\<close>

definition is_ws :: "char \<Rightarrow> bool" where
  "is_ws c = (c = CHR '' '' \<or> c = CHR 0x09 \<or> c = CHR 0x0A \<or> c = CHR 0x0D)"

definition is_digit :: "char \<Rightarrow> bool" where
  "is_digit c = (c \<in> set ''0123456789'')"

text \<open>\<^verbatim>\<open>_w(s, end).end()\<close>: the text after the white space, and its index.\<close>

definition skip_ws :: "string \<Rightarrow> nat \<Rightarrow> string \<times> nat" where
  "skip_ws s pos = (dropWhile is_ws s, pos + length (takeWhile is_ws s))"

definition hex_digit :: "char \<Rightarrow> nat option" where
  "hex_digit c =
     (if is_digit c then Some (of_char c - 48)
      else if c \<in> set ''abcdef'' then Some (of_char c - 87)
      else if c \<in> set ''ABCDEF'' then Some (of_char c - 55)
      else None)"

definition hex4 :: "char \<Rightarrow> char \<Rightarrow> char \<Rightarrow> char \<Rightarrow> nat option" where
  "hex4 a b c d =
     (case (hex_digit a, hex_digit b, hex_digit c, hex_digit d) of
        (Some w, Some x, Some y, Some z) \<Rightarrow> Some (((w * 16 + x) * 16 + y) * 16 + z)
      | _ \<Rightarrow> None)"

text \<open>
  \<^verbatim>\<open>chr(n)\<close>, as the bytes of its UTF-8 encoding (a lone surrogate in the three-byte form).
\<close>

definition chr_utf8 :: "nat \<Rightarrow> string" where
  "chr_utf8 n =
     (if n < 0x80 then [char_of n]
      else if n < 0x800 then [char_of (0xC0 + n div 0x40), char_of (0x80 + n mod 0x40)]
      else if n < 0x10000 then
        [char_of (0xE0 + n div 0x1000), char_of (0x80 + n div 0x40 mod 0x40), char_of (0x80 + n mod 0x40)]
      else
        [char_of (0xF0 + n div 0x40000), char_of (0x80 + n div 0x1000 mod 0x40),
         char_of (0x80 + n div 0x40 mod 0x40), char_of (0x80 + n mod 0x40)])"

text \<open>The one-letter escapes of a JSON string.\<close>

definition backslash :: "char \<Rightarrow> char option" where
  "backslash e =
     (if e = CHR 0x22 \<or> e = CHR 0x5C \<or> e = CHR ''/'' then Some e
      else if e = CHR ''b'' then Some (CHR 0x08)
      else if e = CHR ''f'' then Some (CHR 0x0C)
      else if e = CHR ''n'' then Some (CHR 0x0A)
      else if e = CHR ''r'' then Some (CHR 0x0D)
      else if e = CHR ''t'' then Some (CHR 0x09)
      else None)"

text \<open>
  After a \<^verbatim>\<open>\uXXXX\<close> escape for a high surrogate: a second escape is read with it when the text
  goes on with a backslash, \<^verbatim>\<open>u\<close> and at least five more characters. \<open>Some None\<close> says that
  its four digits are not hexadecimal.
\<close>

definition low_surrogate_after :: "string \<Rightarrow> (nat option) option" where
  "low_surrogate_after s =
     (if 7 \<le> length s \<and> s ! 0 = CHR 0x5C \<and> s ! 1 = CHR ''u''
      then Some (hex4 (s ! 2) (s ! 3) (s ! 4) (s ! 5)) else None)"

text \<open>
  A \<^verbatim>\<open>\uXXXX\<close> escape, read after its \<^verbatim>\<open>u\<close>, the backslash being at index \<open>pos\<close>: the
  four digits must be followed by at least one more character. The result is the decoded
  character and the number of characters read after the backslash: 5, or 11 for a pair of
  surrogates.
\<close>

definition scan_unicode_escape :: "nat \<Rightarrow> string \<Rightarrow> (string \<times> nat) scan" where
  "scan_unicode_escape pos es =
     (if length es < 5 then JSONDecodeError (''Invalid '' @ [CHR 0x5C] @ ''uXXXX escape'') (pos + 1)
      else
        (case hex4 (es ! 0) (es ! 1) (es ! 2) (es ! 3) of
           None \<Rightarrow> JSONDecodeError (''Invalid '' @ [CHR 0x5C] @ ''uXXXX escape'') (pos + 1)
         | Some uni \<Rightarrow>
             if 0xD800 \<le> uni \<and> uni \<le> 0xDBFF then
               (case low_surrogate_after (drop 4 es) of
                  None \<Rightarrow> Ok (chr_utf8 uni, 5)
                | Some None \<Rightarrow>
                    JSONDecodeError (''Invalid '' @ [CHR 0x5C] @ ''uXXXX escape'') (pos + 7)
                | Some (Some uni2) \<Rightarrow>
                    if 0xDC00 \<le> uni2 \<and> uni2 \<le> 0xDFFF then
                      Ok (chr_utf8 (0x10000 + (uni - 0xD800) * 0x400 + (uni2 - 0xDC00)), 11)
                    else Ok (chr_utf8 uni, 5))
             else Ok (chr_utf8 uni, 5)))"

text \<open>
  An escape sequence, read after its backslash at index \<open>pos\<close>: the decoded characters and the
  number of characters read after the backslash. \<open>begin\<close> is the index of the opening quote
  of the string.
\<close>

definition scan_escape :: "nat \<Rightarrow> nat \<Rightarrow> string \<Rightarrow> (string \<times> nat) scan" where
  "scan_escape begin pos cs =
     (case cs of
        [] \<Rightarrow> JSONDecodeError ''Unterminated string starting at'' begin
      | e # es \<Rightarrow>
          if e \<noteq> CHR ''u'' then
            (case backslash e of
               None \<Rightarrow> JSONDecodeError (''Invalid '' @ [CHR 0x5C] @ ''escape'') pos
             | Some ch \<Rightarrow> Ok ([ch], 1))
          else scan_unicode_escape pos es)"

text \<open>
  \<^verbatim>\<open>scanstring\<close>, started after the opening quote: \<open>begin\<close> is the index of that quote,
  \<open>pos\<close> the index of the next character, \<open>acc\<close> what has been decoded. It returns the
  decoded string, the text after the closing quote and its index.
\<close>

fun scanstring :: "nat \<Rightarrow> nat \<Rightarrow> string \<Rightarrow> string \<Rightarrow> (string \<times> string \<times> nat) scan" where
  "scanstring begin pos acc [] = JSONDecodeError ''Unterminated string starting at'' begin"
| "scanstring begin pos acc (c # cs) =
     (if c = CHR 0x22 then Ok (acc, cs, pos + 1)
      else if c = CHR 0x5C then
        (case scan_escape begin pos cs of
           Ok (chars, k) \<Rightarrow> scanstring begin (pos + 1 + k) (acc @ chars) (drop k cs)
         | StopIteration i \<Rightarrow> StopIteration i
         | JSONDecodeError m p \<Rightarrow> JSONDecodeError m p
         | Exhausted \<Rightarrow> Exhausted)
      else if of_char c < (0x20 :: nat) then JSONDecodeError ''Invalid control character at'' pos
      else scanstring begin (pos + 1) (acc @ [c]) cs)"

text \<open>Sequencing: an exception of the first step is the exception of the whole.\<close>

definition scan_bind :: "'a scan \<Rightarrow> ('a \<Rightarrow> 'b scan) \<Rightarrow> 'b scan" where
  "scan_bind r f =
     (case r of
        Ok x \<Rightarrow> f x
      | StopIteration i \<Rightarrow> StopIteration i
      | JSONDecodeError m p \<Rightarrow> JSONDecodeError m p
      | Exhausted \<Rightarrow> Exhausted)"

definition next_is :: "char \<Rightarrow> string \<Rightarrow> bool" where
  "next_is c s = (case s of [] \<Rightarrow> False | d # _ \<Rightarrow> d = c)"

text \<open>
  \<^verbatim>\<open>NUMBER_RE\<close>: an integer part \<^verbatim>\<open>-?(0|[1-9]\d*)\<close>, then optionally a fraction
  \<^verbatim>\<open>\.\d+\<close> and an exponent \<^verbatim>\<open>[eE][-+]?\d+\<close>. With a fraction or an exponent the value is
  a float, kept as its text; otherwise it is an \<^verbatim>\<open>int\<close>.
\<close>

definition digits_value :: "string \<Rightarrow> int" where
  "digits_value ds = foldl (\<lambda>a c. 10 * a + (of_char c - 48)) 0 ds"

definition match_frac :: "string \<Rightarrow> string" where
  "match_frac s =
     (case s of
        p # d # ds \<Rightarrow> if p = CHR ''.'' \<and> is_digit d then p # takeWhile is_digit (d # ds) else []
      | _ \<Rightarrow> [])"

definition match_exp :: "string \<Rightarrow> string" where
  "match_exp s =
     (case s of
        [] \<Rightarrow> []
      | e # es \<Rightarrow>
          if e = CHR ''e'' \<or> e = CHR ''E'' then
            (let sign = (if next_is CHR ''-'' es \<or> next_is CHR ''+'' es then take 1 es else []);
                 ds = takeWhile is_digit (drop (length sign) es)
             in if ds = [] then [] else e # sign @ ds)
          else [])"

definition match_integer :: "string \<Rightarrow> string" where
  "match_integer s =
     (let sign = (if next_is CHR ''-'' s then ''-'' else []);
          s1 = drop (length sign) s
      in case s1 of
           [] \<Rightarrow> []
         | d # ds \<Rightarrow>
             if d = CHR ''0'' then sign @ [d]
             else if is_digit d then sign @ d # takeWhile is_digit ds
             else [])"

definition match_number :: "string \<Rightarrow> (pyobj \<times> nat) option" where
  "match_number s =
     (let integer = match_integer s in
      if integer = [] then None
      else
        (let frac = match_frac (drop (length integer) s);
             exp = match_exp (drop (length integer + length frac) s)
         in if frac \<noteq> [] \<or> exp \<noteq> [] then
              Some (PFloat (integer @ frac @ exp), length integer + length frac + length exp)
            else if next_is CHR ''-'' integer then
              Some (PInt (- digits_value (tl integer)), length integer)
            else Some (PInt (digits_value integer), length integer)))"

text \<open>
  \<^verbatim>\<open>dict(pairs)\<close>: a repeated key keeps its first place and takes the last value.
\<close>

definition dict_of_pairs :: "(string \<times> pyobj) list \<Rightarrow> (string \<times> pyobj) list" where
  "dict_of_pairs pairs = foldl (\<lambda>d kv. AList.update (fst kv) (snd kv) d) [] pairs"

definition match_literal :: "string \<Rightarrow> (pyobj \<times> nat) option" where
  "match_literal s =
     (if take 4 s = ''null'' then Some (PNone, 4)
      else if take 4 s = ''true'' then Some (PBool True, 4)
      else if take 5 s = ''false'' then Some (PBool False, 5)
      else None)"

definition match_constant :: "string \<Rightarrow> (pyobj \<times> nat) option" where
  "match_constant s =
     (if take 3 s = ''NaN'' then Some (PFloat ''nan'', 3)
      else if take 8 s = ''Infinity'' then Some (PFloat ''inf'', 8)
      else if take 9 s = ''-Infinity'' then Some (PFloat ''-inf'', 9)
      else None)"

text \<open>
  The part of \<^verbatim>\<open>scan_once\<close> for a value that is not an object or an array: a string, a
  literal, a number or a constant.
\<close>

definition scan_atom :: "string \<Rightarrow> nat \<Rightarrow> (pyobj \<times> string \<times> nat) scan" where
  "scan_atom s idx =
     (if next_is (CHR 0x22) s then
        scan_bind (scanstring idx (idx + 1) [] (tl s)) (\<lambda>(str, rest, end). Ok (PStr str, rest, end))
      else
        (case match_literal s of
           Some (v, k) \<Rightarrow> Ok (v, drop k s, idx + k)
         | None \<Rightarrow>
             (case match_number s of
                Some (v, k) \<Rightarrow> Ok (v, drop k s, idx + k)
              | None \<Rightarrow>
                  (case match_constant s of
                     Some (v, k) \<Rightarrow> Ok (v, drop k s, idx + k)
                   | None \<Rightarrow> StopIteration idx))))"

text \<open>
  After the opening bracket of an object or an array: white space is skipped, and the closing
  bracket right away means that the container is empty (the flag).
\<close>

definition container_open :: "char \<Rightarrow> string \<Rightarrow> nat \<Rightarrow> bool \<times> string \<times> nat" where
  "container_open close s idx =
     (let (s1, p1) = skip_ws s idx in
      if next_is close s1 then (True, tl s1, p1 + 1) else (False, s1, p1))"

text \<open>
  After a value inside an object or an array: the closing bracket ends the container (the
  flag), a comma leads to the next item, anything else is an error. White space is skipped
  before and after the comma.
\<close>

definition container_next :: "char \<Rightarrow> string \<Rightarrow> nat \<Rightarrow> (bool \<times> string \<times> nat) scan" where
  "container_next close s idx =
     (let (s1, p1) = skip_ws s idx in
      if next_is close s1 then Ok (True, tl s1, p1 + 1)
      else if \<not> next_is CHR '','' s1 then JSONDecodeError ''Expecting ',' delimiter'' p1
      else (let (s2, p2) = skip_ws (tl s1) (p1 + 1) in Ok (False, s2, p2)))"

text \<open>A key of an object with its colon, and the white space around the colon.\<close>

definition object_key :: "string \<Rightarrow> nat \<Rightarrow> (string \<times> string \<times> nat) scan" where
  "object_key s idx =
     (if \<not> next_is (CHR 0x22) s then
        JSONDecodeError ''Expecting property name enclosed in double quotes'' idx
      else
        scan_bind (scanstring idx (idx + 1) [] (tl s)) (\<lambda>(key, s1, p1).
          let (s2, p2) = skip_ws s1 p1 in
          if \<not> next_is CHR '':'' s2 then JSONDecodeError ''Expecting ':' delimiter'' p2
          else (let (s3, p3) = skip_ws (tl s2) (p2 + 1) in Ok (key, s3, p3))))"

text \<open>
  \<^verbatim>\<open>scan_once\<close>, and the loops of \<^verbatim>\<open>JSONObject\<close> and \<^verbatim>\<open>JSONArray\<close> from the point
  where the next key, or the next element, is expected. The first argument is a counter that
  every call decreases.
\<close>

fun scan_once :: "nat \<Rightarrow> string \<Rightarrow> nat \<Rightarrow> (pyobj \<times> string \<times> nat) scan"
  and object_items :: "nat \<Rightarrow> (string \<times> pyobj) list \<Rightarrow> string \<Rightarrow> nat \<Rightarrow> (pyobj \<times> string \<times> nat) scan"
  and array_items :: "nat \<Rightarrow> pyobj list \<Rightarrow> string \<Rightarrow> nat \<Rightarrow> (pyobj \<times> string \<times> nat) scan"
where
  "scan_once 0 s idx = Exhausted"
| "scan_once (Suc n) s idx =
     (if s = [] then StopIteration idx
      else if next_is CHR ''{'' s then
        (case container_open CHR ''}'' (tl s) (idx + 1) of
           (closed, s1, p1) \<Rightarrow> if closed then Ok (PDict [], s1, p1) else object_items n [] s1 p1)
      else if next_is CHR ''['' s then
        (case container_open CHR '']'' (tl s) (idx + 1) of
           (closed, s1, p1) \<Rightarrow> if closed then Ok (PList [], s1, p1) else array_items n [] s1 p1)
      else scan_atom s idx)"
| "object_items 0 pairs s idx = Exhausted"
| "object_items (Suc n) pairs s idx =
     scan_bind (object_key s idx) (\<lambda>(key, s1, p1).
     scan_bind (scan_once n s1 p1) (\<lambda>(v, s2, p2).
     scan_bind (container_next CHR ''}'' s2 p2) (\<lambda>(closed, s3, p3).
       if closed then Ok (PDict (dict_of_pairs (pairs @ [(key, v)])), s3, p3)
       else object_items n (pairs @ [(key, v)]) s3 p3)))"
| "array_items 0 vals s idx = Exhausted"
| "array_items (Suc n) vals s idx =
     scan_bind (scan_once n s idx) (\<lambda>(v, s1, p1).
     scan_bind (container_next CHR '']'' s1 p1) (\<lambda>(closed, s2, p2).
       if closed then Ok (PList (vals @ [v]), s2, p2)
       else array_items n (vals @ [v]) s2 p2))"

text \<open>
  \<^verbatim>\<open>str(e)\<close> of a \<^verbatim>\<open>JSONDecodeError\<close>: the message with the line, the column and the index.
\<close>

definition errmsg :: "string \<Rightarrow> string \<Rightarrow> nat \<Rightarrow> string" where
  "errmsg msg doc pos =
     (let seen = take pos doc;
          lineno = length (filter (\<lambda>c. c = CHR 0x0A) seen) + 1;
          colno = length (takeWhile (\<lambda>c. c \<noteq> CHR 0x0A) (rev seen)) + 1
      in msg @ '': line '' @ str_nat lineno @ '' column '' @ str_nat colno @
         '' (char '' @ str_nat pos @ '')'')"

text \<open>
  \<^verbatim>\<open>json.loads\<close> on a string: \<open>Inr v\<close> is the value, \<open>Inl m\<close> the text of the exception.
  The counter starts at twice the length of the document plus two, which is never used up.
\<close>

definition json_loads :: "string \<Rightarrow> string + pyobj" where
  "json_loads s =
     (if take 3 s = [CHR 0xEF, CHR 0xBB, CHR 0xBF] then
        Inl (errmsg ''Unexpected UTF-8 BOM (decode using utf-8-sig)'' s 0)
      else
        (let (s0, p0) = skip_ws s 0 in
         case scan_once (2 * length s + 2) s0 p0 of
           StopIteration i \<Rightarrow> Inl (errmsg ''Expecting value'' s i)
         | JSONDecodeError m p \<Rightarrow> Inl (errmsg m s p)
         | Exhausted \<Rightarrow> Inl ''maximum recursion depth exceeded''
         | Ok (obj, s1, p1) \<Rightarrow>
             (let (s2, p2) = skip_ws s1 p1 in
              if s2 \<noteq> [] then Inl (errmsg ''Extra data'' s p2) else Inr obj)))"

text \<open>
  RFC 8259: a JSON text is a value between white space, and a value is an object, an array, a
  string, a number or one of the names \<^verbatim>\<open>false\<close>, \<^verbatim>\<open>null\<close> and \<^verbatim>\<open>true\<close>. So a JSON
  value starts with one of the characters below. \<^verbatim>\<open>NaN\<close>, \<^verbatim>\<open>Infinity\<close> and
  \<^verbatim>\<open>-Infinity\<close>, which \<^verbatim>\<open>json.loads\<close> accepts, are not JSON.
\<close>

definition rfc8259_value_start :: "char \<Rightarrow> bool" where
  "rfc8259_value_start c = (c \<in> set ''{[-0123456789fnt'' \<or> c = CHR 0x22)"

section \<open>The generation client (ai_planner.py)\<close>

text \<open>
  The response schema handed to the backend: the three classes of lines 7 to 24, as data.
\<close>

datatype field_type =
  TStr | TInt | TFloat | TList field_type | TModel string "(string \<times> field_type) list"

definition schema_Activity :: field_type where
  "schema_Activity = TModel ''Activity''
     [(''name'', TStr), (''time'', TStr), (''description'', TStr), (''cost_estimate'', TStr),
      (''latitude'', TFloat), (''longitude'', TFloat)]"

definition schema_DailyPlan :: field_type where
  "schema_DailyPlan = TModel ''DailyPlan''
     [(''day'', TInt), (''theme'', TStr), (''activities'', TList schema_Activity)]"

definition schema_TripItinerary :: field_type where
  "schema_TripItinerary = TModel ''TripItinerary''
     [(''destination'', TStr), (''total_estimated_cost'', TStr), (''budget_tips'', TList TStr),
      (''itinerary'', TList schema_DailyPlan)]"

text \<open>
  One call of \<^verbatim>\<open>model.generate_content\<close>: the credential set by \<^verbatim>\<open>genai.configure\<close>, the
  model name, the prompt and the generation configuration.
\<close>

datatype request = Request
  (req_api_key: string) (req_model: string) (req_prompt: string)
  (req_mime_type: string) (req_schema: field_type) (req_temperature: pyobj)

text \<open>
  What the two handlers of the \<^verbatim>\<open>try\<close> statement tell apart: an instance of
  \<^verbatim>\<open>google.api_core.exceptions.InvalidArgument\<close>, and any other instance of
  \<^verbatim>\<open>Exception\<close>. Each carries \<^verbatim>\<open>str(e)\<close>. Every exception that a library call raises
  is an instance of \<^verbatim>\<open>Exception\<close>; the signals of the interpreter below \<^verbatim>\<open>BaseException\<close>
  only (\<^verbatim>\<open>KeyboardInterrupt\<close>, \<^verbatim>\<open>SystemExit\<close>) are not outcomes of a call and are left out.
\<close>

datatype py_exception = InvalidArgument string | OtherException string

text \<open>
  The backend is outside the program. A call either raises, or answers with a response whose
  \<^verbatim>\<open>text\<close> is a string (a response whose \<^verbatim>\<open>text\<close> property raises counts as a call that
  raises: both happen inside the \<^verbatim>\<open>try\<close>).
\<close>

datatype backend_outcome = Raises py_exception | Responds string

type_synonym backend = "request \<Rightarrow> backend_outcome"

text \<open>
  \<^verbatim>\<open>json.loads\<close> is library code as well. The client is modelled over any decoder: \<open>Inr v\<close> is
  the decoded value, \<open>Inl m\<close> says that the decoder raised an exception \<open>e\<close> with
  \<^verbatim>\<open>str(e) = m\<close> (a \<^verbatim>\<open>JSONDecodeError\<close>, which is a \<^verbatim>\<open>ValueError\<close>, or a
  \<^verbatim>\<open>RecursionError\<close>; never an \<^verbatim>\<open>InvalidArgument\<close>).
\<close>

type_synonym decoder = "string \<Rightarrow> string + pyobj"

text \<open>
  The body of the \<^verbatim>\<open>try\<close> (lines 54 to 65): \<open>Inl e\<close> when it raises \<open>e\<close>, \<open>Inr d\<close> when it
  reaches \<^verbatim>\<open>return {"status": "success", "data": result_dict}\<close>.
\<close>

definition try_body :: "backend \<Rightarrow> decoder \<Rightarrow> request \<Rightarrow> py_exception + (string \<times> pyobj) list" where
  "try_body backend loads req =
     (case backend req of
        Raises e \<Rightarrow> Inl e
      | Responds text \<Rightarrow>
          (case loads text of
             Inl m \<Rightarrow> Inl (OtherException m)
           | Inr result_dict \<Rightarrow> Inr [(''status'', PStr ''success''), (''data'', result_dict)]))"

text \<open>
  The request of lines 31 to 61: the key given to \<^verbatim>\<open>genai.configure\<close>, the model of line 34,
  the prompt, and the \<^verbatim>\<open>GenerationConfig\<close>.
\<close>

definition build_request :: "string \<Rightarrow> string \<Rightarrow> int \<Rightarrow> string \<Rightarrow> string list \<Rightarrow> string \<Rightarrow> request" where
  "build_request api_key destination days budget interests notes =
     Request api_key ''gemini-2.5-flash'' (build_prompt destination days budget interests notes)
       ''application/json'' schema_TripItinerary (PFloat ''0.7'')"

text \<open>
  What one call of \<^verbatim>\<open>generate_itinerary\<close> does: the dictionary it returns, the requests it
  sent to the backend, and the lines it printed. The statements before the \<^verbatim>\<open>try\<close> (setting
  the key, making the model object, building the prompt from strings and an integer) do not
  raise.
\<close>

record client_outcome =
  returned :: "(string \<times> pyobj) list"
  sent :: "request list"
  printed :: "string list"

definition generate_itinerary ::
  "backend \<Rightarrow> decoder \<Rightarrow> string \<Rightarrow> string \<Rightarrow> int \<Rightarrow> string \<Rightarrow> string list \<Rightarrow> string \<Rightarrow> client_outcome" where
  "generate_itinerary backend loads api_key destination days budget interests notes =
     (let req = build_request api_key destination days budget interests notes
      in case try_body backend loads req of
           Inr success \<Rightarrow> \<lparr>returned = success, sent = [req], printed = []\<rparr>
         | Inl (InvalidArgument m) \<Rightarrow>
             \<lparr>returned = [(''status'', PStr ''error''),
                           (''message'', PStr ''Invalid API Key provided. Please check your Gemini API key.'')],
              sent = [req], printed = []\<rparr>
         | Inl (OtherException m) \<Rightarrow>
             \<lparr>returned = [(''status'', PStr ''error''), (''message'', PStr m)],
              sent = [req], printed = [''Failed to parse Gemini response: '' @ m]\<rparr>)"

section \<open>The session controller (app.py, lines 86 to 116)\<close>

record session_state =
  itinerary_data :: pyobj
  error_message :: pyobj

text \<open>Lines 86 to 89: on the first run of a session both entries are set to \<^verbatim>\<open>None\<close>.\<close>

definition initial_state :: session_state where
  "initial_state = \<lparr>itinerary_data = PNone, error_message = PNone\<rparr>"

datatype ui = St_error string | St_warning string | St_spinner string

text \<open>
  Lines 111 to 116, on the dictionary the client returned. An empty dictionary is falsy;
  \<^verbatim>\<open>result["data"]\<close> raises KeyError when the key is missing.
\<close>

definition store_result :: "(string \<times> pyobj) list \<Rightarrow> session_state \<Rightarrow> py_error + session_state" where
  "store_result result s =
     (if result \<noteq> [] \<and> dict_get result ''status'' PNone = PStr ''success'' then
        (case getitem (PDict result) ''data'' of
           Inl e \<Rightarrow> Inl e
         | Inr d \<Rightarrow> Inr (s\<lparr>itinerary_data := d, error_message := PNone\<rparr>))
      else
        Inr (s\<lparr>itinerary_data := PNone,
                error_message :=
                  (if result \<noteq> [] then dict_get result ''message'' (PStr ''An unknown error occurred.'')
                   else PStr ''Failed to get a response from the AI planner.'')\<rparr>))"

text \<open>
  One run of the block under \<^verbatim>\<open>if generate_btn:\<close>: the session state it leaves, what it
  showed, the requests that went to the backend, and the exception that ended it, if any.
\<close>

record run_outcome =
  final_state :: session_state
  shown :: "ui list"
  requests :: "request list"
  raised :: "py_error option"

text \<open>Lines 93 and 94.\<close>

definition reset_state :: "session_state \<Rightarrow> session_state" where
  "reset_state s = s\<lparr>itinerary_data := PNone, error_message := PNone\<rparr>"

text \<open>
  \<^verbatim>\<open>os.getenv\<close> gives \<^verbatim>\<open>None\<close> for an unset variable, so the credential is an optional
  string; \<^verbatim>\<open>not api_key\<close> holds for \<^verbatim>\<open>None\<close> and for the empty string.
\<close>

definition not_configured :: "string option \<Rightarrow> bool" where
  "not_configured api_key =
     (case api_key of None \<Rightarrow> True | Some k \<Rightarrow> k = [] \<or> k = ''your_api_key_here'')"

definition generate_clicked ::
  "backend \<Rightarrow> decoder \<Rightarrow> string option \<Rightarrow> string \<Rightarrow> int \<Rightarrow> string \<Rightarrow> string list \<Rightarrow> string \<Rightarrow>
   session_state \<Rightarrow> run_outcome" where
  "generate_clicked backend loads api_key destination duration_days budget_level interests
       additional_notes s =
     (let s0 = reset_state s in
      if not_configured api_key then
        \<lparr>final_state = s0,
         shown = [St_error ''Please provide a Gemini API Key in the sidebar or `.env` file to proceed.''],
         requests = [], raised = None\<rparr>
      else if destination = [] then
        \<lparr>final_state = s0, shown = [St_warning ''Please enter a destination.''],
         requests = [], raised = None\<rparr>
      else
        (let out = generate_itinerary backend loads (case api_key of Some k \<Rightarrow> k | None \<Rightarrow> [])
                     destination duration_days budget_level interests additional_notes;
             spinner = [St_spinner ''Gemini is planning your perfect trip...'']
         in case store_result (returned out) s0 of
              Inl e \<Rightarrow> \<lparr>final_state = s0, shown = spinner, requests = sent out, raised = Some e\<rparr>
            | Inr s1 \<Rightarrow> \<lparr>final_state = s1, shown = spinner, requests = sent out, raised = None\<rparr>))"

text \<open>A run of the script: the block is entered only when the button was pressed.\<close>

definition script_run ::
  "bool \<Rightarrow> backend \<Rightarrow> decoder \<Rightarrow> string option \<Rightarrow> string \<Rightarrow> int \<Rightarrow> string \<Rightarrow> string list \<Rightarrow> string \<Rightarrow>
   session_state \<Rightarrow> run_outcome" where
  "script_run generate_btn backend loads api_key destination duration_days budget_level interests
       additional_notes s =
     (if generate_btn then
        generate_clicked backend loads api_key destination duration_days budget_level interests
          additional_notes s
      else \<lparr>final_state = s, shown = [], requests = [], raised = None\<rparr>)"

section \<open>The map (app.py, lines 141 to 167)\<close>

text \<open>Sequencing of steps that may raise: the first exception ends the run.\<close>

definition and_then :: "'e + 'a \<Rightarrow> ('a \<Rightarrow> 'e + 'b) \<Rightarrow> 'e + 'b" where
  "and_then r f = (case r of Inl e \<Rightarrow> Inl e | Inr x \<Rightarrow> f x)"

text \<open>A \<^verbatim>\<open>for\<close> loop that collects one result per element, in order.\<close>

fun for_each :: "('a \<Rightarrow> 'e + 'b) \<Rightarrow> 'a list \<Rightarrow> 'e + 'b list" where
  "for_each f [] = Inr []"
| "for_each f (x # xs) =
     and_then (f x) (\<lambda>y. and_then (for_each f xs) (\<lambda>ys. Inr (y # ys)))"

text \<open>\<^verbatim>\<open>[act['latitude'], act['longitude']]\<close>.\<close>

definition coords_of :: "pyobj \<Rightarrow> py_error + pyobj \<times> pyobj" where
  "coords_of act =
     and_then (getitem act ''latitude'') (\<lambda>lat.
     and_then (getitem act ''longitude'') (\<lambda>lon. Inr (lat, lon)))"

text \<open>The inner loop of lines 143 and 144 for one day.\<close>

definition day_coords :: "pyobj \<Rightarrow> py_error + (pyobj \<times> pyobj) list" where
  "day_coords d =
     and_then (getitem d ''activities'') (\<lambda>acts.
     and_then (iterate acts) (for_each coords_of))"

text \<open>Lines 141 to 144: the coordinate pairs of all activities, day after day.\<close>

definition all_coords :: "pyobj \<Rightarrow> py_error + (pyobj \<times> pyobj) list" where
  "all_coords payload =
     and_then (getitem payload ''itinerary'') (\<lambda>plans.
     and_then (iterate plans) (\<lambda>ds.
     and_then (for_each day_coords ds) (\<lambda>cs. Inr (concat cs))))"

text \<open>
  A \<^verbatim>\<open>folium.Marker\<close>: its position, the values its popup shows (name, day, time, cost
  estimate), the values its tooltip shows (day, name) and the colour of its icon. The two texts
  are f-strings over these values; formatting a value never raises, so only the values are kept.
\<close>

record marker =
  position :: "pyobj \<times> pyobj"
  popup_values :: "pyobj list"
  tooltip_values :: "pyobj list"
  icon_color :: string

text \<open>
  \<^verbatim>\<open>folium.Map\<close> and \<^verbatim>\<open>folium.Marker\<close> check the location they are given and raise when it
  is not a pair of numbers. folium is library code, so the rendering code is modelled over any
  such check: \<open>None\<close> says that the location is accepted, \<open>Some e\<close> that the constructor
  raises \<open>e\<close>.
\<close>

type_synonym location_check = "pyobj \<times> pyobj \<Rightarrow> py_error option"

text \<open>
  Lines 156 to 161 for one activity of a day whose colour is known. The arguments of the call
  are evaluated from left to right, and then the constructor checks the location.
\<close>

definition make_marker :: "location_check \<Rightarrow> pyobj \<Rightarrow> string \<Rightarrow> pyobj \<Rightarrow> py_error + marker" where
  "make_marker validate d c act =
     and_then (coords_of act) (\<lambda>pos.
     and_then (getitem act ''name'') (\<lambda>n.
     and_then (getitem d ''day'') (\<lambda>dn.
     and_then (getitem act ''time'') (\<lambda>t.
     and_then (getitem act ''cost_estimate'') (\<lambda>ce.
       case validate pos of
         Some e \<Rightarrow> Inl e
       | None \<Rightarrow>
           Inr \<lparr>position = pos, popup_values = [n, dn, t, ce], tooltip_values = [dn, n],
                icon_color = c\<rparr>)))))"

text \<open>Lines 154 to 161 for one day: its colour first, then one marker per activity.\<close>

definition day_markers :: "location_check \<Rightarrow> pyobj \<Rightarrow> py_error + marker list" where
  "day_markers validate d =
     and_then (getitem d ''day'') (\<lambda>dn.
     and_then (day_color dn) (\<lambda>c.
     and_then (getitem d ''activities'') (\<lambda>acts.
     and_then (iterate acts) (for_each (make_marker validate d c)))))"

text \<open>
  What is handed to folium once every location has passed its check: the \<^verbatim>\<open>location\<close> and
  \<^verbatim>\<open>zoom_start\<close> of \<^verbatim>\<open>folium.Map\<close>, the markers added, and the argument of
  \<^verbatim>\<open>fit_bounds\<close>.
\<close>

record map_view =
  focal_point :: "pyobj \<times> pyobj"
  zoom_start :: nat
  markers :: "marker list"
  fit_bounds :: "(pyobj \<times> pyobj) list"

datatype map_result = Empty string | Map map_view

text \<open>
  Lines 141 to 167. An empty list of coordinates is falsy and leads to the \<^verbatim>\<open>st.info\<close> of
  line 167. Otherwise \<^verbatim>\<open>folium.Map\<close> is given the first pair (line 148) and checks it
  before any marker is made.
\<close>

definition compute_map_view :: "location_check \<Rightarrow> pyobj \<Rightarrow> py_error + map_result" where
  "compute_map_view validate payload =
     and_then (all_coords payload) (\<lambda>coords.
       case coords of
         [] \<Rightarrow> Inr (Empty ''No coordinates returned to display on the map.'')
       | first # _ \<Rightarrow>
           (case validate first of
              Some e \<Rightarrow> Inl e
            | None \<Rightarrow>
                and_then (getitem payload ''itinerary'') (\<lambda>plans.
                and_then (iterate plans) (\<lambda>ds.
                and_then (for_each (day_markers validate) ds) (\<lambda>ms.
                  Inr (Map \<lparr>focal_point = first, zoom_start = 12, markers = concat ms,
                             fit_bounds = coords\<rparr>))))))"

subsection \<open>The location check of folium\<close>

text \<open>
  A reference for the check, after \<^verbatim>\<open>folium.utilities.validate_location\<close>: each of the two
  values, latitude first, must pass \<^verbatim>\<open>float(coord)\<close> and must not be NaN. A value that
  \<^verbatim>\<open>float\<close> rejects with \<^verbatim>\<open>TypeError\<close> or \<^verbatim>\<open>ValueError\<close> gives the \<^verbatim>\<open>ValueError\<close>
  ``Location should consist of two numerical values, but ... is not convertible to float.'';
  a NaN gives the \<^verbatim>\<open>ValueError\<close> ``Location values cannot contain NaNs.''; an integer too
  large for a float raises \<^verbatim>\<open>OverflowError\<close> in \<^verbatim>\<open>float\<close>, which the check does not catch.
\<close>

text \<open>
  \<^verbatim>\<open>float(s)\<close> on a string of ASCII characters: white space around, a sign, then
  \<^verbatim>\<open>inf\<close>, \<^verbatim>\<open>infinity\<close> or \<^verbatim>\<open>nan\<close> in any case, or a decimal numeral with an optional
  fraction and exponent, where single underscores may stand between digits. The result says
  whether the string converts, and if so whether to NaN.
\<close>

definition float_space :: "char \<Rightarrow> bool" where
  "float_space c = (c \<in> set [CHR '' '', CHR 0x09, CHR 0x0A, CHR 0x0B, CHR 0x0C, CHR 0x0D])"

definition lower_ascii :: "char \<Rightarrow> char" where
  "lower_ascii c =
     (if (65 :: nat) \<le> of_char c \<and> of_char c \<le> (90 :: nat) then char_of (of_char c + (32 :: nat))
      else c)"

fun underscores_between_digits :: "char \<Rightarrow> string \<Rightarrow> bool" where
  "underscores_between_digits prev [] = True"
| "underscores_between_digits prev (c # cs) =
     (if c = CHR ''_'' then
        is_digit prev \<and> (case cs of [] \<Rightarrow> False | d # _ \<Rightarrow> is_digit d) \<and>
        underscores_between_digits c cs
      else underscores_between_digits c cs)"

definition decimal_float_text :: "string \<Rightarrow> bool" where
  "decimal_float_text s =
     (let whole = takeWhile is_digit s;
          r1 = dropWhile is_digit s;
          frac = (if next_is CHR ''.'' r1 then takeWhile is_digit (tl r1) else []);
          r2 = (if next_is CHR ''.'' r1 then dropWhile is_digit (tl r1) else r1);
          r3 = (if next_is CHR ''e'' r2 \<or> next_is CHR ''E'' r2 then tl r2 else []);
          r4 = (if next_is CHR ''+'' r3 \<or> next_is CHR ''-'' r3 then tl r3 else r3)
      in (whole \<noteq> [] \<or> frac \<noteq> []) \<and>
         (r2 = [] \<or> ((next_is CHR ''e'' r2 \<or> next_is CHR ''E'' r2) \<and> r4 \<noteq> [] \<and>
            list_all is_digit r4)))"

definition float_of_text :: "string \<Rightarrow> bool option" where
  "float_of_text s =
     (let stripped = rev (dropWhile float_space (rev (dropWhile float_space s)));
          unsigned = (if next_is CHR ''+'' stripped \<or> next_is CHR ''-'' stripped
                      then tl stripped else stripped);
          word = map lower_ascii unsigned
      in if word = ''nan'' then Some True
         else if word = ''inf'' \<or> word = ''infinity'' then Some False
         else if underscores_between_digits CHR '' '' unsigned \<and>
                 decimal_float_text (filter (\<lambda>c. c \<noteq> CHR ''_'') unsigned)
         then Some False
         else None)"

text \<open>
  The check of one coordinate. A float of the payload is NaN exactly when its text is
  \<^verbatim>\<open>nan\<close>, the text that stands for the constant \<^verbatim>\<open>NaN\<close>; a \<^verbatim>\<open>bool\<close> converts to 0 or 1;
  an \<^verbatim>\<open>int\<close> converts unless its magnitude rounds beyond the largest float.
\<close>

fun coordinate_problem :: "pyobj \<Rightarrow> py_error option" where
  "coordinate_problem (PFloat x) = (if x = ''nan'' then Some (ValueError Contains_NaN) else None)"
| "coordinate_problem (PInt i) =
     (if 2 ^ 1024 - 2 ^ 970 \<le> \<bar>i\<bar> then Some OverflowError else None)"
| "coordinate_problem (PBool b) = None"
| "coordinate_problem (PStr s) =
     (case float_of_text s of
        None \<Rightarrow> Some (ValueError (Not_numeric (PStr s)))
      | Some True \<Rightarrow> Some (ValueError Contains_NaN)
      | Some False \<Rightarrow> None)"
| "coordinate_problem v = Some (ValueError (Not_numeric v))"

definition validate_location :: location_check where
  "validate_location loc =
     (case coordinate_problem (fst loc) of
        Some e \<Rightarrow> Some e
      | None \<Rightarrow> coordinate_problem (snd loc))"

section \<open>The schema classes (ai_planner.py, lines 7 to 24)\<close>

text \<open>
  The three classes as records. A float field holds the numeral text of the float, as in
  \<open>PFloat\<close>.
\<close>

record Activity =
  name :: string
  time :: string
  description :: string
  cost_estimate :: string
  latitude :: string
  longitude :: string

record DailyPlan =
  day :: int
  theme :: string
  activities :: "Activity list"

record TripItinerary =
  destination :: string
  total_estimated_cost :: string
  budget_tips :: "string list"
  itinerary :: "DailyPlan list"

text \<open>
  The dictionary that holds an instance: one key per field, in the order of the declaration.
  This is the shape of the payload the program reads with \<^verbatim>\<open>act['latitude']\<close>,
  \<^verbatim>\<open>day['activities']\<close> and so on.
\<close>

definition dict_of_Activity :: "Activity \<Rightarrow> pyobj" where
  "dict_of_Activity a =
     PDict [(''name'', PStr (name a)), (''time'', PStr (time a)),
            (''description'', PStr (description a)), (''cost_estimate'', PStr (cost_estimate a)),
            (''latitude'', PFloat (latitude a)), (''longitude'', PFloat (longitude a))]"

definition dict_of_DailyPlan :: "DailyPlan \<Rightarrow> pyobj" where
  "dict_of_DailyPlan p =
     PDict [(''day'', PInt (day p)), (''theme'', PStr (theme p)),
            (''activities'', PList (map dict_of_Activity (activities p)))]"

definition dict_of_TripItinerary :: "TripItinerary \<Rightarrow> pyobj" where
  "dict_of_TripItinerary t =
     PDict [(''destination'', PStr (destination t)),
            (''total_estimated_cost'', PStr (total_estimated_cost t)),
            (''budget_tips'', PList (map PStr (budget_tips t))),
            (''itinerary'', PList (map dict_of_DailyPlan (itinerary t)))]"

text \<open>All activities of an itinerary, in itinerary order, and the coordinate pair of one.\<close>

definition all_activities :: "TripItinerary \<Rightarrow> Activity list" where
  "all_activities t = concat (map activities (itinerary t))"

definition coordinate :: "Activity \<Rightarrow> pyobj \<times> pyobj" where
  "coordinate a = (PFloat (latitude a), PFloat (longitude a))"

text \<open>
  The marker of an activity of a day, and the markers of an itinerary in itinerary order: what
  lines 153 to 161 are to produce for the dictionary of an itinerary.
\<close>

definition marker_of :: "DailyPlan \<Rightarrow> Activity \<Rightarrow> marker" where
  "marker_of p a =
     \<lparr>position = coordinate a,
      popup_values = [PStr (name a), PInt (day p), PStr (time a), PStr (cost_estimate a)],
      tooltip_values = [PInt (day p), PStr (name a)],
      icon_color = colors ! nat ((day p - 1) mod 19)\<rparr>"

definition all_markers :: "TripItinerary \<Rightarrow> marker list" where
  "all_markers t = concat (map (\<lambda>p. map (marker_of p) (activities p)) (itinerary t))"

section \<open>Example inputs\<close>

text \<open>A backend that answers every request in the same way.\<close>

definition constant_backend :: "backend_outcome \<Rightarrow> backend" where
  "constant_backend r req = r"

definition text_without_tips :: string where
  \<open>text_without_tips = ''{"destination": "Goa", "total_estimated_cost": "5000", "itinerary": []}''\<close>

definition text_string_latitude :: string where
  \<open>text_string_latitude =
     ''{"destination": "Goa", "total_estimated_cost": "5000", "budget_tips": ["Walk"], '' @
     ''"itinerary": [{"day": 1, "theme": "Beach", "activities": [{"name": "Baga", '' @
     ''"time": "Morning", "description": "Swim", "cost_estimate": "Free", '' @
     ''"latitude": "15.55", "longitude": 73.75}]}]}''\<close>

text \<open>
  Itineraries: one whose first day has no activity, one with no activity at all, one whose
  only activity has the latitude NaN, and one for Paris with activities on both days.
\<close>

definition trip_late_start :: TripItinerary where
  "trip_late_start =
     \<lparr>destination = ''Goa'', total_estimated_cost = ''5000'', budget_tips = [''Walk''],
      itinerary =
        [\<lparr>day = 1, theme = ''Arrival'', activities = []\<rparr>,
         \<lparr>day = 2, theme = ''Beach'',
          activities = [\<lparr>name = ''Baga'', time = ''Morning'', description = ''Swim'',
                         cost_estimate = ''Free'', latitude = ''15.55'', longitude = ''73.75''\<rparr>]\<rparr>]\<rparr>"

definition trip_no_activities :: TripItinerary where
  "trip_no_activities =
     \<lparr>destination = ''Goa'', total_estimated_cost = ''0'', budget_tips = [],
      itinerary = [\<lparr>day = 1, theme = ''Rest'', activities = []\<rparr>,
                   \<lparr>day = 2, theme = ''Rest'', activities = []\<rparr>]\<rparr>"

definition trip_nan :: TripItinerary where
  "trip_nan =
     \<lparr>destination = ''Goa'', total_estimated_cost = ''5000'', budget_tips = [''Walk''],
      itinerary =
        [\<lparr>day = 1, theme = ''Beach'',
          activities = [\<lparr>name = ''Baga'', time = ''Morning'', description = ''Swim'',
                         cost_estimate = ''Free'', latitude = ''nan'', longitude = ''73.75''\<rparr>]\<rparr>]\<rparr>"

definition trip_paris :: TripItinerary where
  "trip_paris =
     \<lparr>destination = ''Paris, France'', total_estimated_cost = ''12000'', budget_tips = [''Walk''],
      itinerary =
        [\<lparr>day = 1, theme = ''Museums'',
          activities = [\<lparr>name = ''Louvre'', time = ''Morning'', description = ''Art'',
                         cost_estimate = ''Free'', latitude = ''48.8606'', longitude = ''2.3376''\<rparr>,
                        \<lparr>name = ''Notre-Dame'', time = ''Afternoon'', description = ''Cathedral'',
                         cost_estimate = ''Free'', latitude = ''48.853'', longitude = ''2.3499''\<rparr>]\<rparr>,
         \<lparr>day = 2, theme = ''Landmarks'',
          activities = [\<lparr>name = ''Eiffel Tower'', time = ''Morning'', description = ''View'',
                         cost_estimate = ''Free'', latitude = ''48.8584'', longitude = ''2.2945''\<rparr>]\<rparr>]\<rparr>"

section \<open>Properties of the reference decoder\<close>

text \<open>
  Every scanner that returns has read at least one character, and the counter of
  \<open>json_loads\<close> is large enough: the decoder never stops for lack of it.
\<close>

lemma skip_ws_length: "length (fst (skip_ws s p)) \<le> length s"
  by (simp add: skip_ws_def length_dropWhile_le)

lemma next_is_Cons: "next_is c s \<Longrightarrow> s \<noteq> []"
  by (auto simp add: next_is_def)

lemma scan_unicode_escape_consumes: "scan_unicode_escape p es = Ok (chars, k) \<Longrightarrow> 0 < k"
  by (simp add: scan_unicode_escape_def split: if_splits option.splits)

lemma scan_escape_consumes: "scan_escape b p cs = Ok (chars, k) \<Longrightarrow> 0 < k"
  by (cases cs) (auto simp add: scan_escape_def scan_unicode_escape_consumes split: if_splits option.splits)


lemma scanstring_consumes:
  "scanstring b p acc cs = Ok (str, rest, e) \<Longrightarrow> length rest < length cs"
proof (induction cs arbitrary: b p acc rule: length_induct)
  case (1 cs)
  show ?case
  proof (cases cs)
    case Nil
    then show ?thesis using 1(2) by simp
  next
    case (Cons c cs')
    show ?thesis
    proof (cases "c = CHR 0x22")
      case True
      then show ?thesis using 1(2) Cons by simp
    next
      case nq: False
      show ?thesis
      proof (cases "c = CHR 0x5C")
        case True
        show ?thesis
        proof (cases "scan_escape b p cs'")
          case (Ok x)
          obtain chars k where x: "x = (chars, k)" by (cases x)
          have r: "scanstring b (p + 1 + k) (acc @ chars) (drop k cs') = Ok (str, rest, e)"
            using 1(2) Cons nq True Ok x by simp
          have "length (drop k cs') < length cs" using Cons by simp
          then have "length rest < length (drop k cs')" using 1(1) r by blast
          then show ?thesis using Cons by simp
        qed (use 1(2) Cons nq True in simp_all)
      next
        case False
        then have r: "scanstring b (p + 1) (acc @ [c]) cs' = Ok (str, rest, e)"
          using 1(2) Cons nq by (simp split: if_splits)
        have "length cs' < length cs" using Cons by simp
        then have "length rest < length cs'" using 1(1) r by blast
        then show ?thesis using Cons by simp
      qed
    qed
  qed
qed

lemma match_literal_consumes: "match_literal s = Some (v, k) \<Longrightarrow> length (drop k s) < length s"
  by (cases s) (auto simp add: match_literal_def split: if_splits)

lemma match_constant_consumes: "match_constant s = Some (v, k) \<Longrightarrow> length (drop k s) < length s"
  by (cases s) (auto simp add: match_constant_def split: if_splits)

lemma match_integer_Nil: "match_integer [] = []"
  by (simp add: match_integer_def next_is_def)

lemma match_number_consumes: "match_number s = Some (v, k) \<Longrightarrow> length (drop k s) < length s"
proof -
  assume a: "match_number s = Some (v, k)"
  then have i: "match_integer s \<noteq> []" by (auto simp add: match_number_def Let_def split: if_splits)
  then have s: "s \<noteq> []" using match_integer_Nil by auto
  have l: "0 < length (match_integer s)" using i by simp
  have "length (match_integer s) \<le> k"
    using a i by (auto simp add: match_number_def Let_def split: if_splits)
  with l have "0 < k" by (rule less_le_trans)
  then show ?thesis using s by (cases s) simp_all
qed

lemma scan_atom_consumes: "scan_atom s idx = Ok (v, rest, p) \<Longrightarrow> length rest < length s"
proof (cases "next_is (CHR 0x22) s")
  case True
  assume a: "scan_atom s idx = Ok (v, rest, p)"
  then obtain str where "scanstring idx (idx + 1) [] (tl s) = Ok (str, rest, p)"
    using True by (auto simp add: scan_atom_def scan_bind_def split: scan.splits)
  then have "length rest < length (tl s)" by (rule scanstring_consumes)
  then show ?thesis by simp
next
  case False
  assume a: "scan_atom s idx = Ok (v, rest, p)"
  then show ?thesis using False
    by (auto simp add: scan_atom_def split: option.splits
        dest: match_literal_consumes match_number_consumes match_constant_consumes)
qed

lemma scan_atom_not_exhausted: "scan_atom s idx \<noteq> Exhausted"
proof -
  have "\<And>b p acc. scanstring b p acc cs \<noteq> Exhausted" for cs
  proof (induction cs rule: length_induct)
    case (1 cs)
    show ?case
    proof (cases cs)
      case Nil then show ?thesis by simp
    next
      case (Cons c cs')
      have e: "scan_escape b p cs' \<noteq> Exhausted \<and> scan_escape b p cs' \<noteq> StopIteration i" for i
        by (cases cs') (auto simp add: scan_escape_def scan_unicode_escape_def split: option.splits)
      have d: "length (drop k cs') < length cs" for k using Cons by simp
      have d': "length cs' < length cs" using Cons by simp
      show ?thesis using Cons 1 [rule_format, OF d] 1 [rule_format, OF d'] e
        by (auto split: scan.splits)
    qed
  qed
  then show ?thesis
    by (auto simp add: scan_atom_def scan_bind_def split: option.splits scan.splits)
qed


lemma container_open_length:
  "container_open c s idx = (closed, s', p') \<Longrightarrow> length s' \<le> length s"
  using skip_ws_length [of s idx]
  by (auto simp add: container_open_def Let_def split: prod.splits if_splits)

lemma container_next_consumes:
  "container_next c s idx = Ok (closed, s', p') \<Longrightarrow> length s' < length s"
proof -
  assume a: "container_next c s idx = Ok (closed, s', p')"
  obtain s1 p1 where w: "skip_ws s idx = (s1, p1)" by (cases "skip_ws s idx")
  have l1: "length s1 \<le> length s" using skip_ws_length [of s idx] w by simp
  show ?thesis
  proof (cases "next_is c s1")
    case True
    then have "s' = tl s1" and "s1 \<noteq> []" using a w by (auto simp add: container_next_def next_is_Cons)
    then show ?thesis using l1 by (cases s1) auto
  next
    case False
    then have comma: "next_is CHR '','' s1" using a w by (auto simp add: container_next_def split: if_splits)
    obtain s2 p2 where w2: "skip_ws (tl s1) (p1 + 1) = (s2, p2)" by (cases "skip_ws (tl s1) (p1 + 1)")
    have "s' = s2" using a w w2 False comma by (simp add: container_next_def)
    moreover have "length s2 \<le> length (tl s1)" using skip_ws_length [of "tl s1" "p1 + 1"] w2 by simp
    moreover have "s1 \<noteq> []" using comma by (rule next_is_Cons)
    ultimately show ?thesis using l1 by (cases s1) auto
  qed
qed

lemma container_next_not_exhausted: "container_next c s idx \<noteq> Exhausted"
  by (simp add: container_next_def Let_def split: prod.splits)

lemma object_key_consumes:
  "object_key s idx = Ok (key, s', p') \<Longrightarrow> length s' < length s"
proof -
  assume a: "object_key s idx = Ok (key, s', p')"
  then have q: "next_is (CHR 0x22) s" by (auto simp add: object_key_def split: if_splits)
  then have ne: "s \<noteq> []" by (rule next_is_Cons)
  from a q obtain k s1 p1 where
    st: "scanstring idx (idx + 1) [] (tl s) = Ok (k, s1, p1)"
    by (auto simp add: object_key_def scan_bind_def split: scan.splits)
  then have l1: "length s1 < length (tl s)" by (rule scanstring_consumes)
  obtain s2 p2 where w: "skip_ws s1 p1 = (s2, p2)" by (cases "skip_ws s1 p1")
  have l2: "length s2 \<le> length s1" using skip_ws_length [of s1 p1] w by simp
  obtain s3 p3 where w3: "skip_ws (tl s2) (p2 + 1) = (s3, p3)" by (cases "skip_ws (tl s2) (p2 + 1)")
  have l3: "length s3 \<le> length (tl s2)" using skip_ws_length [of "tl s2" "p2 + 1"] w3 by simp
  have "s' = s3" using a q st w w3 by (auto simp add: object_key_def scan_bind_def split: if_splits)
  then show ?thesis using l1 l2 l3 by simp
qed

lemma object_key_not_exhausted: "object_key s idx \<noteq> Exhausted"
proof -
  have "scan_atom s idx \<noteq> Exhausted" by (rule scan_atom_not_exhausted)
  then have "next_is (CHR 0x22) s \<Longrightarrow> scanstring idx (idx + 1) [] (tl s) \<noteq> Exhausted"
    by (auto simp add: scan_atom_def scan_bind_def split: scan.splits)
  then show ?thesis
    by (auto simp add: object_key_def scan_bind_def Let_def split: scan.splits prod.splits)
qed

lemma scan_bounds:
  "((\<forall>v rest p. scan_once n s idx = Ok (v, rest, p) \<longrightarrow> length rest < length s)
     \<and> (2 * length s < n \<longrightarrow> scan_once n s idx \<noteq> Exhausted))
   \<and> ((\<forall>v rest p. object_items n pairs s idx = Ok (v, rest, p) \<longrightarrow> length rest < length s)
     \<and> (2 * length s + 1 < n \<longrightarrow> object_items n pairs s idx \<noteq> Exhausted))
   \<and> ((\<forall>v rest p. array_items n vals s idx = Ok (v, rest, p) \<longrightarrow> length rest < length s)
     \<and> (2 * length s + 1 < n \<longrightarrow> array_items n vals s idx \<noteq> Exhausted))"
proof (induction n arbitrary: s idx pairs vals)
  case 0
  then show ?case by simp
next
  case (Suc n)
  have once_ok: "scan_once n s idx = Ok (v, rest, p) \<Longrightarrow> length rest < length s" for s idx v rest p
    using Suc by blast
  have once_ex: "2 * length s < n \<Longrightarrow> scan_once n s idx \<noteq> Exhausted" for s idx
    using Suc by blast
  have obj_ok: "object_items n pairs s idx = Ok (v, rest, p) \<Longrightarrow> length rest < length s"
    for s idx pairs v rest p using Suc by blast
  have obj_ex: "2 * length s + 1 < n \<Longrightarrow> object_items n pairs s idx \<noteq> Exhausted" for s idx pairs
    using Suc by blast
  have arr_ok: "array_items n vals s idx = Ok (v, rest, p) \<Longrightarrow> length rest < length s"
    for s idx vals v rest p using Suc by blast
  have arr_ex: "2 * length s + 1 < n \<Longrightarrow> array_items n vals s idx \<noteq> Exhausted" for s idx vals
    using Suc by blast

  have P: "(\<forall>v rest p. scan_once (Suc n) s idx = Ok (v, rest, p) \<longrightarrow> length rest < length s)
     \<and> (2 * length s < Suc n \<longrightarrow> scan_once (Suc n) s idx \<noteq> Exhausted)"
  proof (cases "s = []")
    case True
    then show ?thesis by simp
  next
    case ne: False
    then have tl: "length (tl s) < length s" by (cases s) simp_all
    show ?thesis
    proof (cases "next_is CHR ''{'' s")
      case True
      obtain closed s1 p1 where o: "container_open CHR ''}'' (tl s) (idx + 1) = (closed, s1, p1)"
        by (cases "container_open CHR ''}'' (tl s) (idx + 1)")
      have l: "length s1 \<le> length (tl s)" using o by (rule container_open_length)
      have eq: "scan_once (Suc n) s idx =
          (if closed then Ok (PDict [], s1, p1) else object_items n [] s1 p1)"
        using ne True o by simp
      show ?thesis
      proof (cases closed)
        case True
        then show ?thesis using eq l tl by simp
      next
        case False
        have a: "\<forall>v rest p. scan_once (Suc n) s idx = Ok (v, rest, p) \<longrightarrow> length rest < length s"
          using eq False obj_ok [of "[]" s1 p1] l tl by auto
        have b: "2 * length s < Suc n \<longrightarrow> scan_once (Suc n) s idx \<noteq> Exhausted"
        proof
          assume "2 * length s < Suc n"
          then have "2 * length s1 + 1 < n" using l tl by linarith
          then show "scan_once (Suc n) s idx \<noteq> Exhausted" using eq False obj_ex by simp
        qed
        show ?thesis using a b by blast
      qed
    next
      case nb: False
      show ?thesis
      proof (cases "next_is CHR ''['' s")
        case True
        obtain closed s1 p1 where o: "container_open CHR '']'' (tl s) (idx + 1) = (closed, s1, p1)"
          by (cases "container_open CHR '']'' (tl s) (idx + 1)")
        have l: "length s1 \<le> length (tl s)" using o by (rule container_open_length)
        have eq: "scan_once (Suc n) s idx =
            (if closed then Ok (PList [], s1, p1) else array_items n [] s1 p1)"
          using ne nb True o by simp
        show ?thesis
        proof (cases closed)
          case True
          then show ?thesis using eq l tl by simp
        next
          case False
          have a: "\<forall>v rest p. scan_once (Suc n) s idx = Ok (v, rest, p) \<longrightarrow> length rest < length s"
            using eq False arr_ok [of "[]" s1 p1] l tl by auto
          have b: "2 * length s < Suc n \<longrightarrow> scan_once (Suc n) s idx \<noteq> Exhausted"
          proof
            assume "2 * length s < Suc n"
            then have "2 * length s1 + 1 < n" using l tl by linarith
            then show "scan_once (Suc n) s idx \<noteq> Exhausted" using eq False arr_ex by simp
          qed
          show ?thesis using a b by blast
        qed
      next
        case False
        then have eq: "scan_once (Suc n) s idx = scan_atom s idx" using ne nb by simp
        show ?thesis using eq scan_atom_consumes [of s idx] scan_atom_not_exhausted [of s idx]
          by auto
      qed
    qed
  qed

  have Q: "(\<forall>v rest p. object_items (Suc n) pairs s idx = Ok (v, rest, p) \<longrightarrow> length rest < length s)
     \<and> (2 * length s + 1 < Suc n \<longrightarrow> object_items (Suc n) pairs s idx \<noteq> Exhausted)"
  proof (cases "object_key s idx")
    case (Ok x)
    obtain key s1 p1 where x: "x = (key, s1, p1)" by (cases x)
    have l1: "length s1 < length s" using Ok x object_key_consumes by blast
    have eq1: "object_items (Suc n) pairs s idx =
        scan_bind (scan_once n s1 p1) (\<lambda>(v, s2, p2).
          scan_bind (container_next CHR ''}'' s2 p2) (\<lambda>(closed, s3, p3).
            if closed then Ok (PDict (dict_of_pairs (pairs @ [(key, v)])), s3, p3)
            else object_items n (pairs @ [(key, v)]) s3 p3))"
      using Ok x by (simp add: scan_bind_def)
    show ?thesis
    proof (cases "scan_once n s1 p1")
      case o2: (Ok y)
      obtain v s2 p2 where y: "y = (v, s2, p2)" by (cases y)
      have l2: "length s2 < length s1" using o2 y once_ok by blast
      have eq2: "object_items (Suc n) pairs s idx =
          scan_bind (container_next CHR ''}'' s2 p2) (\<lambda>(closed, s3, p3).
            if closed then Ok (PDict (dict_of_pairs (pairs @ [(key, v)])), s3, p3)
            else object_items n (pairs @ [(key, v)]) s3 p3)"
        using eq1 o2 y by (simp add: scan_bind_def)
      show ?thesis
      proof (cases "container_next CHR ''}'' s2 p2")
        case o3: (Ok z)
        obtain closed s3 p3 where z: "z = (closed, s3, p3)" by (cases z)
        have l3: "length s3 < length s2" using o3 z container_next_consumes by blast
        have eq3: "object_items (Suc n) pairs s idx =
            (if closed then Ok (PDict (dict_of_pairs (pairs @ [(key, v)])), s3, p3)
             else object_items n (pairs @ [(key, v)]) s3 p3)"
          using eq2 o3 z by (simp add: scan_bind_def)
        show ?thesis
        proof (cases closed)
          case True
          then show ?thesis using eq3 l1 l2 l3 by simp
        next
          case False
          have a: "\<forall>v rest p. object_items (Suc n) pairs s idx = Ok (v, rest, p) \<longrightarrow>
              length rest < length s"
            using eq3 False obj_ok [of "pairs @ [(key, v)]" s3 p3] l1 l2 l3 by auto
          have b: "2 * length s + 1 < Suc n \<longrightarrow> object_items (Suc n) pairs s idx \<noteq> Exhausted"
          proof
            assume "2 * length s + 1 < Suc n"
            then have "2 * length s3 + 1 < n" using l1 l2 l3 by linarith
            then show "object_items (Suc n) pairs s idx \<noteq> Exhausted" using eq3 False obj_ex by simp
          qed
          show ?thesis using a b by blast
        qed
      qed (use eq2 container_next_not_exhausted [of "CHR ''}''" s2 p2] in \<open>simp_all add: scan_bind_def\<close>)
    next
      case Exhausted
      have "2 * length s + 1 < Suc n \<Longrightarrow> False"
      proof -
        assume "2 * length s + 1 < Suc n"
        then have "2 * length s1 < n" using l1 by linarith
        then show False using once_ex Exhausted by blast
      qed
      then show ?thesis using eq1 Exhausted by (auto simp add: scan_bind_def)
    qed (use eq1 in \<open>simp_all add: scan_bind_def\<close>)
  qed (use object_key_not_exhausted [of s idx] in \<open>simp_all add: scan_bind_def\<close>)

  have R: "(\<forall>v rest p. array_items (Suc n) vals s idx = Ok (v, rest, p) \<longrightarrow> length rest < length s)
     \<and> (2 * length s + 1 < Suc n \<longrightarrow> array_items (Suc n) vals s idx \<noteq> Exhausted)"
  proof (cases "scan_once n s idx")
    case o2: (Ok y)
    obtain v s1 p1 where y: "y = (v, s1, p1)" by (cases y)
    have l1: "length s1 < length s" using o2 y once_ok by blast
    have eq2: "array_items (Suc n) vals s idx =
        scan_bind (container_next CHR '']'' s1 p1) (\<lambda>(closed, s2, p2).
          if closed then Ok (PList (vals @ [v]), s2, p2)
          else array_items n (vals @ [v]) s2 p2)"
      using o2 y by (simp add: scan_bind_def)
    show ?thesis
    proof (cases "container_next CHR '']'' s1 p1")
      case o3: (Ok z)
      obtain closed s2 p2 where z: "z = (closed, s2, p2)" by (cases z)
      have l2: "length s2 < length s1" using o3 z container_next_consumes by blast
      have eq3: "array_items (Suc n) vals s idx =
          (if closed then Ok (PList (vals @ [v]), s2, p2) else array_items n (vals @ [v]) s2 p2)"
        using eq2 o3 z by (simp add: scan_bind_def)
      show ?thesis
      proof (cases closed)
        case True
        then show ?thesis using eq3 l1 l2 by simp
      next
        case False
        have a: "\<forall>v rest p. array_items (Suc n) vals s idx = Ok (v, rest, p) \<longrightarrow>
            length rest < length s"
          using eq3 False arr_ok [of "vals @ [v]" s2 p2] l1 l2 by auto
        have b: "2 * length s + 1 < Suc n \<longrightarrow> array_items (Suc n) vals s idx \<noteq> Exhausted"
        proof
          assume "2 * length s + 1 < Suc n"
          then have "2 * length s2 + 1 < n" using l1 l2 by linarith
          then show "array_items (Suc n) vals s idx \<noteq> Exhausted" using eq3 False arr_ex by simp
        qed
        show ?thesis using a b by blast
      qed
    qed (use eq2 container_next_not_exhausted [of "CHR '']''" s1 p1] in \<open>simp_all add: scan_bind_def\<close>)
  next
    case Exhausted
    have "2 * length s + 1 < Suc n \<Longrightarrow> False"
    proof -
      assume "2 * length s + 1 < Suc n"
      then have "2 * length s < n" by linarith
      then show False using once_ex Exhausted by blast
    qed
    then show ?thesis using Exhausted by (auto simp add: scan_bind_def)
  qed (simp_all add: scan_bind_def)

  show ?case using P Q R by blast
qed

lemma scan_once_enough:
  "scan_once (2 * length s + 2) (fst (skip_ws s 0)) (snd (skip_ws s 0)) \<noteq> Exhausted"
proof -
  have "length (fst (skip_ws s 0)) \<le> length s" by (rule skip_ws_length)
  then have "2 * length (fst (skip_ws s 0)) < 2 * length s + 2" by linarith
  then show ?thesis
    using scan_bounds [of "2 * length s + 2" "fst (skip_ws s 0)" "snd (skip_ws s 0)"] by blast
qed

lemma errmsg_last: "last (errmsg msg doc pos) = CHR '')''"
  by (simp add: errmsg_def Let_def)

lemma errmsg_not_depth: "errmsg msg doc pos \<noteq> ''maximum recursion depth exceeded''"
proof
  assume "errmsg msg doc pos = ''maximum recursion depth exceeded''"
  then have "last (errmsg msg doc pos) = last ''maximum recursion depth exceeded''" by simp
  then show False by (simp add: errmsg_last)
qed

lemma json_loads_never_exhausted: "json_loads s \<noteq> Inl ''maximum recursion depth exceeded''"
proof (cases "take 3 s = [CHR 0xEF, CHR 0xBB, CHR 0xBF]")
  case True
  then show ?thesis by (simp add: json_loads_def errmsg_not_depth)
next
  case False
  obtain s0 p0 where w: "skip_ws s 0 = (s0, p0)" by (cases "skip_ws s 0")
  have ne: "scan_once (2 * length s + 2) s0 p0 \<noteq> Exhausted"
    using scan_once_enough [of s] w by simp
  show ?thesis
  proof (cases "scan_once (2 * length s + 2) s0 p0")
    case (Ok x)
    obtain obj s1 p1 where x: "x = (obj, s1, p1)" by (cases x)
    obtain s2 p2 where w2: "skip_ws s1 p1 = (s2, p2)" by (cases "skip_ws s1 p1")
    have "json_loads s = (if s2 \<noteq> [] then Inl (errmsg ''Extra data'' s p2) else Inr obj)"
      using False w Ok x w2 by (simp add: json_loads_def)
    then show ?thesis by (simp add: errmsg_not_depth)
  next
    case (StopIteration i)
    then have "json_loads s = Inl (errmsg ''Expecting value'' s i)"
      using False w by (simp add: json_loads_def)
    then show ?thesis by (simp add: errmsg_not_depth)
  next
    case (JSONDecodeError m p)
    then have "json_loads s = Inl (errmsg m s p)"
      using False w by (simp add: json_loads_def)
    then show ?thesis by (simp add: errmsg_not_depth)
  next
    case Exhausted
    then show ?thesis using ne by simp
  qed
qed

section \<open>Properties of the marker colours\<close>

lemma colors_length: "length colors = 19"
  by (simp add: colors_def)

lemma colors_distinct: "distinct colors"
  by (simp add: colors_def)

text \<open>
  Claim C4. The colour of day \<open>d\<close> is the entry of the palette at index \<open>(d - 1) mod 19\<close>,
  the palette being a fixed list of 19 (at least 16) pairwise different colour names; for
  \<open>d \<ge> 1\<close> this index is \<open>(d - 1) mod 19\<close> computed on natural numbers. The colour is a
  function of the day number alone, so two evaluations agree. For any palette of 16 colours the
  selection rule gives index 0 on day 17.
\<close>

theorem day_color_cycles:
  "day_color (PInt d) = Inr (colors ! nat ((d - 1) mod int (length colors)))
   \<and> nat ((d - 1) mod int (length colors)) < length colors
   \<and> (1 \<le> d \<longrightarrow> nat ((d - 1) mod int (length colors)) = (nat d - 1) mod length colors)
   \<and> 16 \<le> length colors \<and> distinct colors
   \<and> (length palette = 16 \<longrightarrow> palette_color palette 17 = Inr (palette ! 0))"
proof -
  have ne: "colors \<noteq> []" by (simp add: colors_def)
  have a: "day_color (PInt d) = Inr (colors ! nat ((d - 1) mod int (length colors)))"
    using ne by (simp add: palette_color_def)
  have b: "nat ((d - 1) mod int (length colors)) < length colors"
    by (simp add: colors_length nat_less_iff)
  have c: "1 \<le> d \<longrightarrow> nat ((d - 1) mod int (length colors)) = (nat d - 1) mod length colors"
    by (simp add: colors_length nat_mod_distrib nat_diff_distrib)
  have e: "length palette = 16 \<longrightarrow> palette_color palette 17 = Inr (palette ! 0)"
    by (auto simp add: palette_color_def)
  show ?thesis using a b c e colors_length colors_distinct by simp
qed

text \<open>
  On the program's own palette of 19 colours, day 17 gets the entry at index 16 and the cycle
  restarts on day 20; on the first 16 colours alone, day 17 gets the first one.
\<close>

theorem day_color_cycles_witness:
  "day_color (PInt 17) = Inr ''gray'' \<and> day_color (PInt 20) = Inr ''red''
   \<and> palette_color (take 16 colors) 17 = Inr ''red''"
proof -
  have l: "length (take 16 colors) = 16" by (simp add: colors_def)
  have "palette_color (take 16 colors) 17 = Inr (take 16 colors ! 0)"
    using day_color_cycles [of 17 "take 16 colors"] l by blast
  moreover have "day_color (PInt 17) = Inr ''gray''"
    using day_color_cycles [of 17 "[]"] by (simp add: colors_def)
  moreover have "day_color (PInt 20) = Inr ''red''"
    using day_color_cycles [of 20 "[]"] by (simp add: colors_def)
  ultimately show ?thesis by (simp add: colors_def)
qed

section \<open>Properties of the prompt\<close>

text \<open>The numeral of an integer determines it: reading the digits back gives the number.\<close>

lemma of_char_digit_char: "d < 10 \<Longrightarrow> of_char (digit_char d) = (48 + int d)"
proof -
  assume "d < 10"
  then have "d \<in> {0,1,2,3,4,5,6,7,8,9}" by auto
  then show ?thesis by (auto simp add: digit_char_def)
qed

lemma digits_value_snoc: "digits_value (ds @ [c]) = 10 * digits_value ds + (of_char c - 48)"
  by (simp add: digits_value_def)

lemma digits_value_str_nat: "digits_value (str_nat m) = int m"
proof (induction m rule: str_nat.induct)
  case (1 m)
  show ?case
  proof (cases "m < 10")
    case True
    then show ?thesis
      by (subst str_nat.simps) (simp add: digits_value_def of_char_digit_char)
  next
    case False
    then have ih: "digits_value (str_nat (m div 10)) = int (m div 10)" using 1 by simp
    have "int m = int (10 * (m div 10) + m mod 10)" by simp
    then have split: "10 * int (m div 10) + int (m mod 10) = int m" by (simp only: of_nat_add of_nat_mult of_nat_numeral)
    have "str_nat m = str_nat (m div 10) @ [digit_char (m mod 10)]"
      using False by (subst str_nat.simps) simp
    then show ?thesis
      using ih split by (simp add: digits_value_snoc of_char_digit_char)
  qed
qed

lemma str_nat_inj: "str_nat a = str_nat b \<Longrightarrow> a = b"
proof -
  assume "str_nat a = str_nat b"
  then have "digits_value (str_nat a) = digits_value (str_nat b)" by simp
  then show ?thesis by (simp add: digits_value_str_nat)
qed

lemma str_nat_not_Nil: "str_nat m \<noteq> []"
  by (subst str_nat.simps) simp

lemma str_nat_no_minus: "CHR ''-'' \<notin> set (str_nat m)"
proof (induction m rule: str_nat.induct)
  case (1 m)
  have d: "\<And>d. d < 10 \<Longrightarrow> digit_char d \<noteq> CHR ''-''"
  proof -
    fix d :: nat assume "d < 10"
    then have "d \<in> {0,1,2,3,4,5,6,7,8,9}" by auto
    then show "digit_char d \<noteq> CHR ''-''" by (auto simp add: digit_char_def)
  qed
  show ?case
  proof (cases "m < 10")
    case True
    then show ?thesis using d [of m] by (subst str_nat.simps) auto
  next
    case False
    then show ?thesis using 1 d [of "m mod 10"] by (subst str_nat.simps) auto
  qed
qed

lemma str_int_inj: "str_int a = str_int b \<Longrightarrow> a = b"
proof -
  assume eq: "str_int a = str_int b"
  have hd_neg: "\<And>i. i < 0 \<Longrightarrow> hd (str_int i) = CHR ''-''" by (simp add: str_int_def)
  have hd_pos: "\<And>i. \<not> i < 0 \<Longrightarrow> hd (str_int i) \<noteq> CHR ''-''"
  proof -
    fix i :: int assume "\<not> i < 0"
    then have "str_int i = str_nat (nat i)" by (simp add: str_int_def)
    moreover have "hd (str_nat (nat i)) \<in> set (str_nat (nat i))" using str_nat_not_Nil by simp
    ultimately show "hd (str_int i) \<noteq> CHR ''-''" using str_nat_no_minus by metis
  qed
  show "a = b"
  proof (cases "a < 0")
    case True
    then have "b < 0" using eq hd_neg hd_pos by metis
    then have "str_nat (nat (- a)) = str_nat (nat (- b))" using True eq by (simp add: str_int_def)
    then have "nat (- a) = nat (- b)" by (rule str_nat_inj)
    then show ?thesis using True \<open>b < 0\<close> by simp
  next
    case False
    then have "\<not> b < 0" using eq hd_neg hd_pos by metis
    then have "str_nat (nat a) = str_nat (nat b)" using False eq by (simp add: str_int_def)
    then have "nat a = nat b" by (rule str_nat_inj)
    then show ?thesis using False \<open>\<not> b < 0\<close> by simp
  qed
qed


lemma sublist_mid: "ys = ps @ xs @ ss \<Longrightarrow> sublist xs ys"
  by (auto simp add: sublist_def)

lemma sublist_left_part: "sublist (xs @ ys) zs \<Longrightarrow> sublist xs zs"
proof -
  assume "sublist (xs @ ys) zs"
  then obtain ps ss where "zs = ps @ (xs @ ys) @ ss" by (auto simp add: sublist_def)
  then have "zs = ps @ xs @ (ys @ ss)" by simp
  then show ?thesis by (rule sublist_mid)
qed

lemma prompt_has_destination: "sublist dest (build_prompt dest n tier tags nts)"
  by (rule sublist_mid [where ps = "prompt_head @ str_int n @ prompt_after_days"])
     (simp add: build_prompt_def)

lemma prompt_has_days: "sublist (str_int n) (build_prompt dest n tier tags nts)"
  by (rule sublist_mid [where ps = prompt_head]) (simp add: build_prompt_def)

lemma prompt_has_budget: "sublist tier (build_prompt dest n tier tags nts)"
  by (rule sublist_mid [where ps = "prompt_head @ str_int n @ prompt_after_days @ dest @
        prompt_after_destination"]) (simp add: build_prompt_def)

lemma prompt_head_split:
  "prompt_head = ''\<newline>    You are an expert travel planner specializing in budget travel for college students.\<newline>    '' @ ''Create a detailed ''"
  by (simp add: prompt_head_def)

lemma prompt_after_destination_split:
  "prompt_after_destination = ''.'' @ ''\<newline>    \<newline>    Constraints & Preferences:\<newline>    '' @ ''- Budget Level: ''"
  by (simp add: prompt_after_destination_def)

lemma prompt_after_budget_split:
  "prompt_after_budget = ''.'' @ '' Prioritize free activities, student discounts, street food, and cheap transport.\<newline>    '' @ ''- Interests: ''"
  by (simp add: prompt_after_budget_def)

lemma prompt_has_itinerary_line:
  "sublist (''Create a detailed '' @ str_int n @ ''-day itinerary for '' @ dest @ ''.'')
     (build_prompt dest n tier tags nts)"
  apply (rule sublist_mid [where ps = "''\<newline>    You are an expert travel planner specializing in budget travel for college students.\<newline>    ''"
        and ss = "''\<newline>    \<newline>    Constraints & Preferences:\<newline>    '' @ ''- Budget Level: '' @ tier @ prompt_after_budget @ interests_str tags @ ''.'' @ notes_str nts @ prompt_tail"])
  unfolding build_prompt_def prompt_head_split prompt_after_destination_split prompt_after_days_def
  by (simp only: append_assoc)

lemma prompt_has_budget_line:
  "sublist (''- Budget Level: '' @ tier @ ''.'') (build_prompt dest n tier tags nts)"
  apply (rule sublist_mid [where ps = "prompt_head @ str_int n @ prompt_after_days @ dest @
          ''.'' @ ''\<newline>    \<newline>    Constraints & Preferences:\<newline>    ''"
        and ss = "'' Prioritize free activities, student discounts, street food, and cheap transport.\<newline>    '' @ ''- Interests: '' @ interests_str tags @ ''.'' @ notes_str nts @ prompt_tail"])
  unfolding build_prompt_def prompt_after_destination_split prompt_after_budget_split
  by (simp only: append_assoc)

lemma prompt_has_interests_line:
  "sublist (''- Interests: '' @ interests_str tags @ ''.'' @ notes_str nts)
     (build_prompt dest n tier tags nts)"
  apply (rule sublist_mid [where ps = "prompt_head @ str_int n @ prompt_after_days @ dest @
          prompt_after_destination @ tier @ ''.'' @
          '' Prioritize free activities, student discounts, street food, and cheap transport.\<newline>    ''"
        and ss = prompt_tail])
  unfolding build_prompt_def prompt_after_budget_split
  by (simp only: append_assoc)

lemma prompt_has_interests:
  "sublist (''- Interests: '' @ interests_str tags @ ''.'') (build_prompt dest n tier tags nts)"
proof -
  have "sublist ((''- Interests: '' @ interests_str tags @ ''.'') @ notes_str nts)
          (build_prompt dest n tier tags nts)"
    using prompt_has_interests_line [of tags nts dest n tier] by (simp only: append_assoc)
  then show ?thesis by (rule sublist_left_part)
qed


text \<open>
  Claim C8. For every destination, day count, budget tier, list of interests and notes, the prompt
  contains the destination, the decimal numeral of the day count (which determines the count) and
  the budget tier verbatim, each in its sentence. With no interests the interests line reads
  \<^verbatim>\<open>General sightseeing\<close> and not the rendering of an empty list; with empty notes nothing
  stands between the interests line and the closing paragraph; with notes the clause
  \<^verbatim>\<open>Additional Notes\<close> follows the interests line.
\<close>

theorem build_prompt_embeds:
  "sublist dest (build_prompt dest n tier tags nts)
   \<and> sublist (str_int n) (build_prompt dest n tier tags nts)
   \<and> sublist tier (build_prompt dest n tier tags nts)
   \<and> sublist (''Create a detailed '' @ str_int n @ ''-day itinerary for '' @ dest @ ''.'')
        (build_prompt dest n tier tags nts)
   \<and> sublist (''- Budget Level: '' @ tier @ ''.'') (build_prompt dest n tier tags nts)
   \<and> (str_int n = str_int n' \<longrightarrow> n = n')
   \<and> (tags = [] \<longrightarrow>
        sublist ''- Interests: General sightseeing.'' (build_prompt dest n tier tags nts))
   \<and> (tags \<noteq> [] \<longrightarrow>
        sublist (''- Interests: '' @ join '', '' tags @ ''.'') (build_prompt dest n tier tags nts))
   \<and> (nts = [] \<longrightarrow>
        build_prompt dest n tier tags nts =
          prompt_head @ str_int n @ prompt_after_days @ dest @ prompt_after_destination @ tier @
          prompt_after_budget @ interests_str tags @ ''.'' @ prompt_tail)
   \<and> (nts \<noteq> [] \<longrightarrow>
        sublist (''- Interests: '' @ interests_str tags @ ''.'' @ ''\<newline>Additional Notes: '' @ nts)
          (build_prompt dest n tier tags nts))"
proof (intro conjI impI)
  show "sublist dest (build_prompt dest n tier tags nts)" by (rule prompt_has_destination)
  show "sublist (str_int n) (build_prompt dest n tier tags nts)" by (rule prompt_has_days)
  show "sublist tier (build_prompt dest n tier tags nts)" by (rule prompt_has_budget)
  show "sublist (''Create a detailed '' @ str_int n @ ''-day itinerary for '' @ dest @ ''.'')
        (build_prompt dest n tier tags nts)" by (rule prompt_has_itinerary_line)
  show "sublist (''- Budget Level: '' @ tier @ ''.'') (build_prompt dest n tier tags nts)"
    by (rule prompt_has_budget_line)
  show "n = n'" if "str_int n = str_int n'" using that by (rule str_int_inj)
  show "sublist ''- Interests: General sightseeing.'' (build_prompt dest n tier tags nts)"
    if "tags = []"
    using prompt_has_interests [of tags dest n tier nts] that by (simp add: interests_str_def)
  show "sublist (''- Interests: '' @ join '', '' tags @ ''.'') (build_prompt dest n tier tags nts)"
    if "tags \<noteq> []"
    using prompt_has_interests [of tags dest n tier nts] that by (simp add: interests_str_def)
  show "build_prompt dest n tier tags nts =
          prompt_head @ str_int n @ prompt_after_days @ dest @ prompt_after_destination @ tier @
          prompt_after_budget @ interests_str tags @ ''.'' @ prompt_tail"
    if "nts = []"
    using that by (simp add: build_prompt_def notes_str_def)
  show "sublist (''- Interests: '' @ interests_str tags @ ''.'' @ ''\<newline>Additional Notes: '' @ nts)
          (build_prompt dest n tier tags nts)"
    if "nts \<noteq> []"
    using prompt_has_interests_line [of tags nts dest n tier] that by (simp add: notes_str_def)
qed

lemma str_int_2: "str_int 2 = ''2''"
  by (simp add: str_int_def str_nat.simps digit_char_def)

text \<open>Two prompts for two days in Paris: without interests and notes, and with both.\<close>

theorem build_prompt_embeds_witness:
  "sublist ''Create a detailed 2-day itinerary for Paris, France.''
     (build_prompt ''Paris, France'' 2 ''Budget'' [] [])
   \<and> sublist ''- Budget Level: Budget.'' (build_prompt ''Paris, France'' 2 ''Budget'' [] [])
   \<and> sublist ''- Interests: General sightseeing.'' (build_prompt ''Paris, France'' 2 ''Budget'' [] [])
   \<and> build_prompt ''Paris, France'' 2 ''Budget'' [] [] =
       prompt_head @ ''2'' @ prompt_after_days @ ''Paris, France'' @ prompt_after_destination @
       ''Budget'' @ prompt_after_budget @ ''General sightseeing'' @ ''.'' @ prompt_tail
   \<and> sublist ''- Interests: History, Food.''
       (build_prompt ''Paris, France'' 2 ''Budget'' [''History'', ''Food''] ''no early mornings'')
   \<and> sublist ''- Interests: History, Food.\<newline>Additional Notes: no early mornings''
       (build_prompt ''Paris, France'' 2 ''Budget'' [''History'', ''Food''] ''no early mornings'')"
proof -
  note t1 = build_prompt_embeds [of "''Paris, France''" 2 "''Budget''" "[]" "[]" 2]
  note t2 = build_prompt_embeds [of "''Paris, France''" 2 "''Budget''" "[''History'', ''Food'']"
      "''no early mornings''" 2]
  note c4 = conjunct2 [THEN conjunct2, THEN conjunct2, THEN conjunct1]
  note c5 = conjunct2 [THEN conjunct2, THEN conjunct2, THEN conjunct2, THEN conjunct1]
  note c7 = conjunct2 [THEN conjunct2, THEN conjunct2, THEN conjunct2, THEN conjunct2,
      THEN conjunct2, THEN conjunct1]
  note c8 = conjunct2 [THEN conjunct2, THEN conjunct2, THEN conjunct2, THEN conjunct2,
      THEN conjunct2, THEN conjunct2, THEN conjunct1]
  note c9 = conjunct2 [THEN conjunct2, THEN conjunct2, THEN conjunct2, THEN conjunct2,
      THEN conjunct2, THEN conjunct2, THEN conjunct2, THEN conjunct1]
  note c10 = conjunct2 [THEN conjunct2, THEN conjunct2, THEN conjunct2, THEN conjunct2,
      THEN conjunct2, THEN conjunct2, THEN conjunct2, THEN conjunct2]
  have 1: "sublist ''Create a detailed 2-day itinerary for Paris, France.''
     (build_prompt ''Paris, France'' 2 ''Budget'' [] [])"
    using t1 [THEN c4] by (simp only: str_int_2 append_Cons append_Nil)
  have 2: "sublist ''- Budget Level: Budget.'' (build_prompt ''Paris, France'' 2 ''Budget'' [] [])"
    using t1 [THEN c5] by (simp only: append_Cons append_Nil)
  have 3: "sublist ''- Interests: General sightseeing.'' (build_prompt ''Paris, France'' 2 ''Budget'' [] [])"
    using t1 [THEN c7] by (simp only: simp_thms)
  have 4: "build_prompt ''Paris, France'' 2 ''Budget'' [] [] =
       prompt_head @ ''2'' @ prompt_after_days @ ''Paris, France'' @ prompt_after_destination @
       ''Budget'' @ prompt_after_budget @ ''General sightseeing'' @ ''.'' @ prompt_tail"
    using t1 [THEN c9] by (simp only: str_int_2 interests_str_def simp_thms if_False)
  have 5: "sublist ''- Interests: History, Food.''
       (build_prompt ''Paris, France'' 2 ''Budget'' [''History'', ''Food''] ''no early mornings'')"
    using t2 [THEN c8] by (simp only: join.simps append_Cons append_Nil list.distinct simp_thms)
  have 6: "sublist ''- Interests: History, Food.\<newline>Additional Notes: no early mornings''
       (build_prompt ''Paris, France'' 2 ''Budget'' [''History'', ''Food''] ''no early mornings'')"
    using t2 [THEN c10]
    by (simp only: interests_str_def join.simps append_Cons append_Nil list.distinct simp_thms if_True)
  show ?thesis using 1 2 3 4 5 6 by (intro conjI)
qed

section \<open>Properties of the generation client\<close>

lemma loads_without_tips:
  "json_loads text_without_tips =
     Inr (PDict [(''destination'', PStr ''Goa''), (''total_estimated_cost'', PStr ''5000''),
                 (''itinerary'', PList [])])"
  by code_simp

lemma loads_not_json: "json_loads ''not json'' = Inl ''Expecting value: line 1 column 1 (char 0)''"
  by code_simp


lemma loads_string_latitude:
  "json_loads text_string_latitude =
     Inr (PDict
       [(''destination'', PStr ''Goa''), (''total_estimated_cost'', PStr ''5000''),
        (''budget_tips'', PList [PStr ''Walk'']),
        (''itinerary'',
         PList [PDict [(''day'', PInt 1), (''theme'', PStr ''Beach''),
           (''activities'',
            PList [PDict [(''name'', PStr ''Baga''), (''time'', PStr ''Morning''),
              (''description'', PStr ''Swim''), (''cost_estimate'', PStr ''Free''),
              (''latitude'', PStr ''15.55''), (''longitude'', PFloat ''73.75'')]])]])])"
  by code_simp

lemma try_body_cases:
  "try_body backend loads req =
     (case backend req of
        Raises e \<Rightarrow> Inl e
      | Responds text \<Rightarrow>
          (case loads text of
             Inl m \<Rightarrow> Inl (OtherException m)
           | Inr d \<Rightarrow> Inr [(''status'', PStr ''success''), (''data'', d)]))"
  by (simp add: try_body_def)

lemma returned_success:
  "backend (build_request k dest n tier tags nts) = Responds text \<Longrightarrow> loads text = Inr v \<Longrightarrow>
   generate_itinerary backend loads k dest n tier tags nts =
     \<lparr>returned = [(''status'', PStr ''success''), (''data'', v)],
      sent = [build_request k dest n tier tags nts], printed = []\<rparr>"
  by (simp add: generate_itinerary_def try_body_def)

lemma returned_decode_error:
  "backend (build_request k dest n tier tags nts) = Responds text \<Longrightarrow> loads text = Inl m \<Longrightarrow>
   generate_itinerary backend loads k dest n tier tags nts =
     \<lparr>returned = [(''status'', PStr ''error''), (''message'', PStr m)],
      sent = [build_request k dest n tier tags nts],
      printed = [''Failed to parse Gemini response: '' @ m]\<rparr>"
  by (simp add: generate_itinerary_def try_body_def)

lemma returned_other_exception:
  "backend (build_request k dest n tier tags nts) = Raises (OtherException m) \<Longrightarrow>
   generate_itinerary backend loads k dest n tier tags nts =
     \<lparr>returned = [(''status'', PStr ''error''), (''message'', PStr m)],
      sent = [build_request k dest n tier tags nts],
      printed = [''Failed to parse Gemini response: '' @ m]\<rparr>"
  by (simp add: generate_itinerary_def try_body_def)

lemma returned_invalid_argument:
  "backend (build_request k dest n tier tags nts) = Raises (InvalidArgument m) \<Longrightarrow>
   generate_itinerary backend loads k dest n tier tags nts =
     \<lparr>returned = [(''status'', PStr ''error''),
                   (''message'', PStr ''Invalid API Key provided. Please check your Gemini API key.'')],
      sent = [build_request k dest n tier tags nts], printed = []\<rparr>"
  by (simp add: generate_itinerary_def try_body_def)

lemma sent_one: "sent (generate_itinerary backend loads k dest n tier tags nts) =
   [build_request k dest n tier tags nts]"
  by (simp add: generate_itinerary_def Let_def split: sum.splits py_exception.splits)

lemma returned_shapes:
  "(\<exists>v. returned (generate_itinerary backend loads k dest n tier tags nts) =
          [(''status'', PStr ''success''), (''data'', v)])
   \<or> (\<exists>m. returned (generate_itinerary backend loads k dest n tier tags nts) =
          [(''status'', PStr ''error''), (''message'', PStr m)])"
proof (cases "backend (build_request k dest n tier tags nts)")
  case (Raises e)
  then show ?thesis
    by (cases e) (simp_all add: returned_other_exception returned_invalid_argument)
next
  case (Responds body)
  then show ?thesis
    by (cases "loads body") (simp_all add: returned_success returned_decode_error)
qed

text \<open>
  Claim C1, as amended. Whenever \<^verbatim>\<open>json.loads\<close> returns a value for the text of the response,
  the client returns the status \<^verbatim>\<open>success\<close> with that value as it is; it answers a response
  with the status \<^verbatim>\<open>error\<close> only when \<^verbatim>\<open>json.loads\<close> itself raises on the text. Nothing
  compares the value with the schema: the schema only travels to the backend inside the
  request.
\<close>

theorem decoded_text_is_returned_unvalidated:
  "(backend (build_request k dest n tier tags nts) = Responds text \<and> loads text = Inr v \<longrightarrow>
     returned (generate_itinerary backend loads k dest n tier tags nts) =
       [(''status'', PStr ''success''), (''data'', v)])
   \<and> (backend (build_request k dest n tier tags nts) = Responds text \<and> loads text = Inl m \<longrightarrow>
     returned (generate_itinerary backend loads k dest n tier tags nts) =
       [(''status'', PStr ''error''), (''message'', PStr m)])"
  by (simp add: returned_success returned_decode_error)

text \<open>A payload whose latitude is a string comes back as a success.\<close>

theorem decoded_text_is_returned_unvalidated_witness:
  "returned (generate_itinerary (constant_backend (Responds text_string_latitude)) json_loads
      ''key'' ''Goa'' 1 ''Budget'' [] []) =
     [(''status'', PStr ''success''),
      (''data'', PDict
       [(''destination'', PStr ''Goa''), (''total_estimated_cost'', PStr ''5000''),
        (''budget_tips'', PList [PStr ''Walk'']),
        (''itinerary'',
         PList [PDict [(''day'', PInt 1), (''theme'', PStr ''Beach''),
           (''activities'',
            PList [PDict [(''name'', PStr ''Baga''), (''time'', PStr ''Morning''),
              (''description'', PStr ''Swim''), (''cost_estimate'', PStr ''Free''),
              (''latitude'', PStr ''15.55''), (''longitude'', PFloat ''73.75'')]])]])])]"
  using decoded_text_is_returned_unvalidated [of "constant_backend (Responds text_string_latitude)"
      "''key''" "''Goa''" 1 "''Budget''" "[]" "[]" text_string_latitude json_loads]
    loads_string_latitude
  by (simp add: constant_backend_def)

text \<open>
  Claim C1 as stated fails: a response that is valid JSON and has no \<^verbatim>\<open>budget_tips\<close> field is
  returned as a success carrying that payload.
\<close>

theorem missing_budget_tips_counterexample:
  "returned (generate_itinerary (constant_backend (Responds text_without_tips)) json_loads
      ''key'' ''Goa'' 1 ''Budget'' [] []) =
     [(''status'', PStr ''success''),
      (''data'', PDict [(''destination'', PStr ''Goa''), (''total_estimated_cost'', PStr ''5000''),
                       (''itinerary'', PList [])])]
   \<and> getitem (PDict [(''destination'', PStr ''Goa''), (''total_estimated_cost'', PStr ''5000''),
                       (''itinerary'', PList [])]) ''budget_tips'' = Inl (KeyError ''budget_tips'')"
  using returned_success [of "constant_backend (Responds text_without_tips)"
      "''key''" "''Goa''" 1 "''Budget''" "[]" "[]" text_without_tips json_loads]
    loads_without_tips
  by (simp add: constant_backend_def)

lemma try_body_raises:
  "try_body backend loads (build_request k dest n tier tags nts) = Inl e \<Longrightarrow>
   returned (generate_itinerary backend loads k dest n tier tags nts) =
     [(''status'', PStr ''error''),
      (''message'', PStr (case e of
          InvalidArgument m \<Rightarrow> ''Invalid API Key provided. Please check your Gemini API key.''
        | OtherException m \<Rightarrow> m))]"
  by (cases e) (simp_all add: generate_itinerary_def)

lemma loads_NaN: "json_loads ''NaN'' = Inr (PFloat ''nan'')"
  by code_simp

text \<open>
  Claim C6, as amended. When \<^verbatim>\<open>json.loads\<close> raises on the text of the response (with message
  \<open>m\<close>), and when the backend call raises an exception that is not an \<^verbatim>\<open>InvalidArgument\<close>
  (with message \<open>m\<close>), the client returns the status \<^verbatim>\<open>error\<close> with the message \<open>m\<close>.
  Whatever exception the body of the \<^verbatim>\<open>try\<close> raises, the call returns an error dictionary:
  none goes on to the caller.
\<close>

theorem generate_itinerary_reports_failure:
  "(backend (build_request k dest n tier tags nts) = Responds text \<and> loads text = Inl m \<longrightarrow>
      returned (generate_itinerary backend loads k dest n tier tags nts) =
        [(''status'', PStr ''error''), (''message'', PStr m)])
   \<and> (backend (build_request k dest n tier tags nts) = Raises (OtherException m) \<longrightarrow>
      returned (generate_itinerary backend loads k dest n tier tags nts) =
        [(''status'', PStr ''error''), (''message'', PStr m)])
   \<and> (try_body backend loads (build_request k dest n tier tags nts) = Inl e \<longrightarrow>
      returned (generate_itinerary backend loads k dest n tier tags nts) =
        [(''status'', PStr ''error''),
         (''message'', PStr (case e of
             InvalidArgument m \<Rightarrow> ''Invalid API Key provided. Please check your Gemini API key.''
           | OtherException m \<Rightarrow> m))])"
  using try_body_raises [of backend loads k dest n tier tags nts e]
  by (simp add: returned_decode_error returned_other_exception)

text \<open>The response text \<^verbatim>\<open>not json\<close>, and a backend that is unavailable.\<close>

theorem generate_itinerary_reports_failure_witness:
  "returned (generate_itinerary (constant_backend (Responds ''not json'')) json_loads
      ''key'' ''Goa'' 1 ''Budget'' [] []) =
     [(''status'', PStr ''error''),
      (''message'', PStr ''Expecting value: line 1 column 1 (char 0)'')]
   \<and> returned (generate_itinerary (constant_backend (Raises (OtherException ''503 Service Unavailable'')))
      json_loads ''key'' ''Goa'' 1 ''Budget'' [] []) =
     [(''status'', PStr ''error''), (''message'', PStr ''503 Service Unavailable'')]"
proof -
  note t1 = generate_itinerary_reports_failure [of "constant_backend (Responds ''not json'')"
      "''key''" "''Goa''" 1 "''Budget''" "[]" "[]" "''not json''" json_loads
      "''Expecting value: line 1 column 1 (char 0)''" "OtherException []"]
  note t2 = generate_itinerary_reports_failure [of
      "constant_backend (Raises (OtherException ''503 Service Unavailable''))"
      "''key''" "''Goa''" 1 "''Budget''" "[]" "[]" "[]" json_loads "''503 Service Unavailable''"
      "OtherException ''503 Service Unavailable''"]
  have a: "constant_backend (Responds ''not json'')
        (build_request ''key'' ''Goa'' 1 ''Budget'' [] []) = Responds ''not json''
      \<and> json_loads ''not json'' = Inl ''Expecting value: line 1 column 1 (char 0)''"
    using loads_not_json by (simp add: constant_backend_def)
  have b: "constant_backend (Raises (OtherException ''503 Service Unavailable''))
        (build_request ''key'' ''Goa'' 1 ''Budget'' [] []) =
      Raises (OtherException ''503 Service Unavailable'')"
    by (simp add: constant_backend_def)
  show ?thesis using t1 [THEN conjunct1] t2 [THEN conjunct2, THEN conjunct1] a b by blast
qed

text \<open>
  Claim C6 as stated fails: the text \<^verbatim>\<open>NaN\<close> is not valid JSON (no JSON value starts with
  \<^verbatim>\<open>N\<close>), \<^verbatim>\<open>json.loads\<close> accepts it, and the client returns a success.
\<close>

theorem nan_text_counterexample:
  "returned (generate_itinerary (constant_backend (Responds ''NaN'')) json_loads
      ''key'' ''Goa'' 1 ''Budget'' [] []) =
     [(''status'', PStr ''success''), (''data'', PFloat ''nan'')]
   \<and> \<not> rfc8259_value_start CHR ''N''"
  using returned_success [of "constant_backend (Responds ''NaN'')"
      "''key''" "''Goa''" 1 "''Budget''" "[]" "[]" "''NaN''" json_loads "PFloat ''nan''"]
    loads_NaN
  by (simp add: constant_backend_def rfc8259_value_start_def)

text \<open>
  Claim C2, as amended. Every call returns a dictionary of one of two shapes: the status
  \<^verbatim>\<open>success\<close> with the decoded value under \<^verbatim>\<open>data\<close>, or the status \<^verbatim>\<open>error\<close> with a
  message. A rejected credential (\<^verbatim>\<open>InvalidArgument\<close>) is reported under the status
  \<^verbatim>\<open>error\<close> with one fixed message. The call sends exactly one request.
\<close>

theorem two_tagged_outcomes:
  "((\<exists>v. returned (generate_itinerary backend loads k dest n tier tags nts) =
          [(''status'', PStr ''success''), (''data'', v)])
    \<or> (\<exists>m. returned (generate_itinerary backend loads k dest n tier tags nts) =
          [(''status'', PStr ''error''), (''message'', PStr m)]))
   \<and> (backend (build_request k dest n tier tags nts) = Raises (InvalidArgument m') \<longrightarrow>
        returned (generate_itinerary backend loads k dest n tier tags nts) =
          [(''status'', PStr ''error''),
           (''message'', PStr ''Invalid API Key provided. Please check your Gemini API key.'')])
   \<and> length (sent (generate_itinerary backend loads k dest n tier tags nts)) = 1"
  using returned_shapes [of backend loads k dest n tier tags nts]
  by (simp add: returned_invalid_argument sent_one)

text \<open>A rejected credential.\<close>

theorem two_tagged_outcomes_witness:
  "returned (generate_itinerary (constant_backend (Raises (InvalidArgument ''API key not valid.'')))
      json_loads ''wrong'' ''Goa'' 1 ''Budget'' [] []) =
     [(''status'', PStr ''error''),
      (''message'', PStr ''Invalid API Key provided. Please check your Gemini API key.'')]"
  using two_tagged_outcomes [of "constant_backend (Raises (InvalidArgument ''API key not valid.''))"
      json_loads "''wrong''" "''Goa''" 1 "''Budget''" "[]" "[]" "''API key not valid.''"]
  by (simp add: constant_backend_def)

text \<open>
  Claim C2 as stated fails: no tag sets a rejected credential apart. Its dictionary has the same
  keys and the same status as the one for an unavailable backend, and it is equal to the
  dictionary for any other exception that carries the fixed message.
\<close>

theorem auth_error_tag_counterexample:
  "map fst (returned (generate_itinerary
        (constant_backend (Raises (InvalidArgument ''API key not valid.'')))
        json_loads ''wrong'' ''Goa'' 1 ''Budget'' [] [])) =
   map fst (returned (generate_itinerary
        (constant_backend (Raises (OtherException ''503 Service Unavailable'')))
        json_loads ''wrong'' ''Goa'' 1 ''Budget'' [] []))
   \<and> dict_get (returned (generate_itinerary
        (constant_backend (Raises (InvalidArgument ''API key not valid.'')))
        json_loads ''wrong'' ''Goa'' 1 ''Budget'' [] [])) ''status'' PNone = PStr ''error''
   \<and> dict_get (returned (generate_itinerary
        (constant_backend (Raises (OtherException ''503 Service Unavailable'')))
        json_loads ''wrong'' ''Goa'' 1 ''Budget'' [] [])) ''status'' PNone = PStr ''error''
   \<and> returned (generate_itinerary
        (constant_backend (Raises (InvalidArgument ''API key not valid.'')))
        json_loads ''wrong'' ''Goa'' 1 ''Budget'' [] []) =
     returned (generate_itinerary
        (constant_backend (Raises (OtherException ''Invalid API Key provided. Please check your Gemini API key.'')))
        json_loads ''wrong'' ''Goa'' 1 ''Budget'' [] [])"
  by (simp add: generate_itinerary_def try_body_def constant_backend_def dict_get_def)

section \<open>Properties of the session controller\<close>

lemma store_result_success:
  "store_result [(''status'', PStr ''success''), (''data'', v)] s =
     Inr (s\<lparr>itinerary_data := v, error_message := PNone\<rparr>)"
  by (simp add: store_result_def dict_get_def)

lemma store_result_error:
  "store_result [(''status'', PStr ''error''), (''message'', PStr m)] s =
     Inr (s\<lparr>itinerary_data := PNone, error_message := PStr m\<rparr>)"
  by (simp add: store_result_def dict_get_def)

lemma reset_state_eq: "reset_state (s :: session_state) = initial_state"
  by (simp add: reset_state_def initial_state_def)

lemma generate_clicked_not_configured:
  "not_configured key \<Longrightarrow>
   generate_clicked backend loads key dest n tier tags nts s =
     \<lparr>final_state = initial_state,
      shown = [St_error ''Please provide a Gemini API Key in the sidebar or `.env` file to proceed.''],
      requests = [], raised = None\<rparr>"
  by (simp add: generate_clicked_def reset_state_eq)

lemma generate_clicked_no_destination:
  "\<not> not_configured key \<Longrightarrow>
   generate_clicked backend loads key [] n tier tags nts s =
     \<lparr>final_state = initial_state, shown = [St_warning ''Please enter a destination.''],
      requests = [], raised = None\<rparr>"
  by (simp add: generate_clicked_def reset_state_eq)

lemma generate_clicked_calls:
  "\<not> not_configured (Some k) \<Longrightarrow> dest \<noteq> [] \<Longrightarrow>
   generate_clicked backend loads (Some k) dest n tier tags nts s =
     (case store_result (returned (generate_itinerary backend loads k dest n tier tags nts)) initial_state of
        Inl e \<Rightarrow> \<lparr>final_state = initial_state,
                  shown = [St_spinner ''Gemini is planning your perfect trip...''],
                  requests = [build_request k dest n tier tags nts], raised = Some e\<rparr>
      | Inr s1 \<Rightarrow> \<lparr>final_state = s1,
                   shown = [St_spinner ''Gemini is planning your perfect trip...''],
                   requests = [build_request k dest n tier tags nts], raised = None\<rparr>)"
  by (simp add: generate_clicked_def reset_state_eq sent_one Let_def split: sum.splits)

lemma generate_clicked_final:
  "final_state (generate_clicked backend loads key dest n tier tags nts s) = initial_state
   \<or> (\<exists>v. final_state (generate_clicked backend loads key dest n tier tags nts s) =
          \<lparr>itinerary_data = v, error_message = PNone\<rparr>)
   \<or> (\<exists>m. final_state (generate_clicked backend loads key dest n tier tags nts s) =
          \<lparr>itinerary_data = PNone, error_message = PStr m\<rparr>)"
proof (cases "not_configured key")
  case True
  then show ?thesis by (simp add: generate_clicked_not_configured)
next
  case nc: False
  show ?thesis
  proof (cases "dest = []")
    case True
    then show ?thesis using nc by (simp add: generate_clicked_no_destination)
  next
    case False
    from nc obtain k where k: "key = Some k" by (cases key) (simp_all add: not_configured_def)
    from returned_shapes [of backend loads k dest n tier tags nts]
    show ?thesis
    proof
      assume "\<exists>v. returned (generate_itinerary backend loads k dest n tier tags nts) =
          [(''status'', PStr ''success''), (''data'', v)]"
      then obtain v where "returned (generate_itinerary backend loads k dest n tier tags nts) =
          [(''status'', PStr ''success''), (''data'', v)]" ..
      then show ?thesis using nc False k
        by (simp add: generate_clicked_calls store_result_success initial_state_def)
    next
      assume "\<exists>m. returned (generate_itinerary backend loads k dest n tier tags nts) =
          [(''status'', PStr ''error''), (''message'', PStr m)]"
      then obtain m where "returned (generate_itinerary backend loads k dest n tier tags nts) =
          [(''status'', PStr ''error''), (''message'', PStr m)]" ..
      then show ?thesis using nc False k
        by (simp add: generate_clicked_calls store_result_error initial_state_def)
    qed
  qed
qed

lemma generate_clicked_forgets:
  "generate_clicked backend loads key dest n tier tags nts s =
   generate_clicked backend loads key dest n tier tags nts s'"
  by (simp add: generate_clicked_def reset_state_eq)

lemma generate_clicked_never_raises:
  "raised (generate_clicked backend loads key dest n tier tags nts s) = None"
proof (cases "not_configured key")
  case True
  then show ?thesis by (simp add: generate_clicked_not_configured)
next
  case nc: False
  show ?thesis
  proof (cases "dest = []")
    case True
    then show ?thesis using nc by (simp add: generate_clicked_no_destination)
  next
    case False
    from nc obtain k where k: "key = Some k" by (cases key) (simp_all add: not_configured_def)
    from returned_shapes [of backend loads k dest n tier tags nts]
    show ?thesis using nc False k
      by (auto simp add: generate_clicked_calls store_result_success store_result_error)
  qed
qed


text \<open>
  Claim C7. When the credential is absent, empty or the placeholder \<^verbatim>\<open>your_api_key_here\<close>, a
  press of the button sends no request to the backend and shows the configuration error; no
  run of the script sends one. (A call of the client always sends exactly one request, so the
  client was not called.)
\<close>

theorem no_request_without_credential:
  "key = None \<or> key = Some [] \<or> key = Some ''your_api_key_here'' \<longrightarrow>
     requests (generate_clicked backend loads key dest n tier tags nts s) = []
     \<and> shown (generate_clicked backend loads key dest n tier tags nts s) =
         [St_error ''Please provide a Gemini API Key in the sidebar or `.env` file to proceed.'']
     \<and> requests (script_run btn backend loads key dest n tier tags nts s) = []"
proof
  assume "key = None \<or> key = Some [] \<or> key = Some ''your_api_key_here''"
  then have "not_configured key" by (auto simp add: not_configured_def)
  then show "requests (generate_clicked backend loads key dest n tier tags nts s) = []
     \<and> shown (generate_clicked backend loads key dest n tier tags nts s) =
         [St_error ''Please provide a Gemini API Key in the sidebar or `.env` file to proceed.'']
     \<and> requests (script_run btn backend loads key dest n tier tags nts s) = []"
    by (simp add: generate_clicked_not_configured script_run_def)
qed

text \<open>The three cases, with a backend that would answer.\<close>

theorem no_request_without_credential_witness:
  "requests (generate_clicked (constant_backend (Responds text_without_tips)) json_loads
      (Some []) ''Goa'' 1 ''Budget'' [] [] initial_state) = []
   \<and> requests (generate_clicked (constant_backend (Responds text_without_tips)) json_loads
      None ''Goa'' 1 ''Budget'' [] [] initial_state) = []
   \<and> requests (generate_clicked (constant_backend (Responds text_without_tips)) json_loads
      (Some ''your_api_key_here'') ''Goa'' 1 ''Budget'' [] [] initial_state) = []"
  using no_request_without_credential [of "Some []" "constant_backend (Responds text_without_tips)"
      json_loads "''Goa''" 1 "''Budget''" "[]" "[]" initial_state True]
    no_request_without_credential [of None "constant_backend (Responds text_without_tips)"
      json_loads "''Goa''" 1 "''Budget''" "[]" "[]" initial_state True]
    no_request_without_credential [of "Some ''your_api_key_here''"
      "constant_backend (Responds text_without_tips)"
      json_loads "''Goa''" 1 "''Budget''" "[]" "[]" initial_state True]
  by simp

text \<open>
  Claim C10. With an empty destination, whatever the credential, a press of the button sends no
  request, and the session ends with neither an itinerary nor an error message, whatever it held
  before.
\<close>

theorem empty_destination_clears_slot:
  "requests (generate_clicked backend loads key [] n tier tags nts s) = []
   \<and> final_state (generate_clicked backend loads key [] n tier tags nts s) =
       \<lparr>itinerary_data = PNone, error_message = PNone\<rparr>
   \<and> raised (generate_clicked backend loads key [] n tier tags nts s) = None"
  by (cases "not_configured key")
     (simp_all add: generate_clicked_not_configured generate_clicked_no_destination
        initial_state_def)

text \<open>A session that held an itinerary.\<close>

theorem empty_destination_clears_slot_witness:
  "requests (generate_clicked (constant_backend (Responds text_without_tips)) json_loads
      (Some ''key'') [] 1 ''Budget'' [] []
      \<lparr>itinerary_data = PDict [(''destination'', PStr ''Goa'')], error_message = PNone\<rparr>) = []
   \<and> final_state (generate_clicked (constant_backend (Responds text_without_tips)) json_loads
      (Some ''key'') [] 1 ''Budget'' [] []
      \<lparr>itinerary_data = PDict [(''destination'', PStr ''Goa'')], error_message = PNone\<rparr>) =
       \<lparr>itinerary_data = PNone, error_message = PNone\<rparr>"
  using empty_destination_clears_slot [of "constant_backend (Responds text_without_tips)" json_loads
      "Some ''key''" 1 "''Budget''" "[]" "[]"
      "\<lparr>itinerary_data = PDict [(''destination'', PStr ''Goa'')], error_message = PNone\<rparr>"]
  by simp

text \<open>
  Claim C5. After a press of the button the two entries are never both different from
  \<^verbatim>\<open>None\<close>. The block starts by resetting both entries, so what it leaves does not depend on
  what the session held: an itinerary of an earlier run is gone whatever the outcome. The block
  ends without an exception. A run of the script keeps the property: without a press the
  session is unchanged.
\<close>

theorem single_result_slot:
  "\<not> (itinerary_data (final_state (generate_clicked backend loads key dest n tier tags nts s)) \<noteq> PNone
       \<and> error_message (final_state (generate_clicked backend loads key dest n tier tags nts s)) \<noteq> PNone)
   \<and> generate_clicked backend loads key dest n tier tags nts s =
       generate_clicked backend loads key dest n tier tags nts (reset_state s)
   \<and> reset_state s = \<lparr>itinerary_data = PNone, error_message = PNone\<rparr>
   \<and> final_state (generate_clicked backend loads key dest n tier tags nts s) =
       final_state (generate_clicked backend loads key dest n tier tags nts s')
   \<and> raised (generate_clicked backend loads key dest n tier tags nts s) = None
   \<and> (\<not> (itinerary_data s \<noteq> PNone \<and> error_message s \<noteq> PNone) \<longrightarrow>
        \<not> (itinerary_data (final_state (script_run btn backend loads key dest n tier tags nts s)) \<noteq> PNone
           \<and> error_message (final_state (script_run btn backend loads key dest n tier tags nts s)) \<noteq> PNone))"
proof -
  let ?f = "final_state (generate_clicked backend loads key dest n tier tags nts s)"
  have a: "\<not> (itinerary_data ?f \<noteq> PNone \<and> error_message ?f \<noteq> PNone)"
    using generate_clicked_final [of backend loads key dest n tier tags nts s]
    by (auto simp add: initial_state_def)
  have b: "generate_clicked backend loads key dest n tier tags nts s =
       generate_clicked backend loads key dest n tier tags nts (reset_state s)"
    by (rule generate_clicked_forgets)
  have c: "reset_state s = \<lparr>itinerary_data = PNone, error_message = PNone\<rparr>"
    by (simp add: reset_state_eq initial_state_def)
  have d: "?f = final_state (generate_clicked backend loads key dest n tier tags nts s')"
    using generate_clicked_forgets [of backend loads key dest n tier tags nts s s'] by simp
  have e: "raised (generate_clicked backend loads key dest n tier tags nts s) = None"
    by (rule generate_clicked_never_raises)
  have f: "\<not> (itinerary_data s \<noteq> PNone \<and> error_message s \<noteq> PNone) \<longrightarrow>
        \<not> (itinerary_data (final_state (script_run btn backend loads key dest n tier tags nts s)) \<noteq> PNone
           \<and> error_message (final_state (script_run btn backend loads key dest n tier tags nts s)) \<noteq> PNone)"
    using a by (cases btn) (simp_all add: script_run_def)
  show ?thesis using a b c d e f by (intro conjI)
qed

text \<open>A session that holds an itinerary, and a new attempt that fails.\<close>

theorem single_result_slot_witness:
  "final_state (generate_clicked (constant_backend (Responds ''not json'')) json_loads
      (Some ''key'') ''Goa'' 1 ''Budget'' [] []
      \<lparr>itinerary_data = PDict [(''destination'', PStr ''Goa'')], error_message = PNone\<rparr>) =
     \<lparr>itinerary_data = PNone,
      error_message = PStr ''Expecting value: line 1 column 1 (char 0)''\<rparr>"
proof -
  have nc: "\<not> not_configured (Some ''key'')" by (simp add: not_configured_def)
  have r: "returned (generate_itinerary (constant_backend (Responds ''not json'')) json_loads
      ''key'' ''Goa'' 1 ''Budget'' [] []) =
     [(''status'', PStr ''error''), (''message'', PStr ''Expecting value: line 1 column 1 (char 0)'')]"
    using returned_decode_error [of "constant_backend (Responds ''not json'')"
      "''key''" "''Goa''" 1 "''Budget''" "[]" "[]" "''not json''" json_loads
      "''Expecting value: line 1 column 1 (char 0)''"] loads_not_json
    by (simp add: constant_backend_def)
  have f: "final_state (generate_clicked (constant_backend (Responds ''not json'')) json_loads
      (Some ''key'') ''Goa'' 1 ''Budget'' [] [] initial_state) =
     \<lparr>itinerary_data = PNone,
      error_message = PStr ''Expecting value: line 1 column 1 (char 0)''\<rparr>"
    using nc by (simp add: generate_clicked_calls r store_result_error initial_state_def)
  note t = single_result_slot [of "constant_backend (Responds ''not json'')" json_loads
      "Some ''key''" "''Goa''" 1 "''Budget''" "[]" "[]"
      "\<lparr>itinerary_data = PDict [(''destination'', PStr ''Goa'')], error_message = PNone\<rparr>"
      initial_state True]
  have "final_state (generate_clicked (constant_backend (Responds ''not json'')) json_loads
      (Some ''key'') ''Goa'' 1 ''Budget'' [] []
      \<lparr>itinerary_data = PDict [(''destination'', PStr ''Goa'')], error_message = PNone\<rparr>) =
    final_state (generate_clicked (constant_backend (Responds ''not json'')) json_loads
      (Some ''key'') ''Goa'' 1 ''Budget'' [] [] initial_state)"
    using t by blast
  then show ?thesis using f by (rule trans)
qed

section \<open>Properties of the map\<close>

lemma for_each_map:
  "(\<And>x. x \<in> set xs \<Longrightarrow> f (g x) = Inr (h x)) \<Longrightarrow> for_each f (map g xs) = Inr (map h xs)"
  by (induction xs) (simp_all add: and_then_def)

lemma coords_of_Activity: "coords_of (dict_of_Activity a) = Inr (coordinate a)"
  by (simp add: coords_of_def dict_of_Activity_def coordinate_def and_then_def)

lemma day_coords_DailyPlan:
  "day_coords (dict_of_DailyPlan p) = Inr (map coordinate (activities p))"
  by (simp add: day_coords_def dict_of_DailyPlan_def and_then_def
      for_each_map [where h = coordinate] coords_of_Activity)

lemma all_coords_TripItinerary:
  "all_coords (dict_of_TripItinerary t) = Inr (map coordinate (all_activities t))"
  by (simp add: all_coords_def dict_of_TripItinerary_def and_then_def
      for_each_map [where h = "\<lambda>p. map coordinate (activities p)"] day_coords_DailyPlan
      all_activities_def map_concat comp_def)

lemma day_color_PInt: "day_color (PInt d) = Inr (colors ! nat ((d - 1) mod 19))"
  by (simp add: palette_color_def colors_def)

lemma getitem_Activity:
  "getitem (dict_of_Activity a) ''name'' = Inr (PStr (name a))"
  "getitem (dict_of_Activity a) ''time'' = Inr (PStr (time a))"
  "getitem (dict_of_Activity a) ''cost_estimate'' = Inr (PStr (cost_estimate a))"
  by (simp_all add: dict_of_Activity_def)

lemma getitem_DailyPlan:
  "getitem (dict_of_DailyPlan p) ''day'' = Inr (PInt (day p))"
  "getitem (dict_of_DailyPlan p) ''activities'' = Inr (PList (map dict_of_Activity (activities p)))"
  by (simp_all add: dict_of_DailyPlan_def)

lemma make_marker_Activity:
  "validate (coordinate a) = None \<Longrightarrow>
   make_marker validate (dict_of_DailyPlan p) c (dict_of_Activity a) =
     Inr ((marker_of p a)\<lparr>icon_color := c\<rparr>)"
  by (simp add: make_marker_def coords_of_Activity and_then_def marker_of_def
      getitem_Activity getitem_DailyPlan)

lemma day_markers_DailyPlan:
  assumes "\<And>a. a \<in> set (activities p) \<Longrightarrow> validate (coordinate a) = None"
  shows "day_markers validate (dict_of_DailyPlan p) = Inr (map (marker_of p) (activities p))"
proof -
  have "for_each (make_marker validate (dict_of_DailyPlan p) (colors ! nat ((day p - 1) mod 19)))
          (map dict_of_Activity (activities p)) = Inr (map (marker_of p) (activities p))"
    by (rule for_each_map) (simp add: make_marker_Activity assms marker_of_def)
  then show ?thesis
    by (simp add: day_markers_def and_then_def day_color_PInt getitem_DailyPlan del: day_color.simps)
qed

lemma markers_TripItinerary:
  assumes "\<And>a. a \<in> set (all_activities t) \<Longrightarrow> validate (coordinate a) = None"
  shows "for_each (day_markers validate) (map dict_of_DailyPlan (itinerary t)) =
     Inr (map (\<lambda>p. map (marker_of p) (activities p)) (itinerary t))"
proof (rule for_each_map)
  fix p assume p: "p \<in> set (itinerary t)"
  have "\<And>a. a \<in> set (activities p) \<Longrightarrow> validate (coordinate a) = None"
    using assms p by (auto simp add: all_activities_def)
  then show "day_markers validate (dict_of_DailyPlan p) = Inr (map (marker_of p) (activities p))"
    by (rule day_markers_DailyPlan)
qed

lemma getitem_itinerary:
  "getitem (dict_of_TripItinerary t) ''itinerary'' =
     Inr (PList (map dict_of_DailyPlan (itinerary t)))"
  by (simp add: dict_of_TripItinerary_def)

lemma compute_map_view_empty:
  "all_activities t = [] \<Longrightarrow>
   compute_map_view validate (dict_of_TripItinerary t) =
     Inr (Empty ''No coordinates returned to display on the map.'')"
  by (simp add: compute_map_view_def all_coords_TripItinerary and_then_def)

lemma compute_map_view_rejected:
  "all_activities t \<noteq> [] \<Longrightarrow> validate (coordinate (hd (all_activities t))) = Some e \<Longrightarrow>
   compute_map_view validate (dict_of_TripItinerary t) = Inl e"
  by (cases "all_activities t")
     (simp_all add: compute_map_view_def all_coords_TripItinerary and_then_def)

lemma compute_map_view_accepted:
  assumes "all_activities t \<noteq> []"
    and "\<And>a. a \<in> set (all_activities t) \<Longrightarrow> validate (coordinate a) = None"
  shows "compute_map_view validate (dict_of_TripItinerary t) =
     Inr (Map \<lparr>focal_point = coordinate (hd (all_activities t)), zoom_start = 12,
                markers = all_markers t, fit_bounds = map coordinate (all_activities t)\<rparr>)"
proof -
  obtain a as where c: "all_activities t = a # as" using assms(1) by (cases "all_activities t") auto
  have v: "validate (coordinate a) = None" using assms(2) c by simp
  have m: "for_each (day_markers validate) (map dict_of_DailyPlan (itinerary t)) =
     Inr (map (\<lambda>p. map (marker_of p) (activities p)) (itinerary t))"
    using assms(2) by (rule markers_TripItinerary)
  show ?thesis
    using c v m
    by (simp add: compute_map_view_def all_coords_TripItinerary and_then_def getitem_itinerary
        all_markers_def)
qed

lemma for_each_raises:
  "x \<in> set xs \<Longrightarrow> f x = Inl e \<Longrightarrow> \<exists>e'. for_each f xs = Inl e'"
  by (induction xs) (auto simp add: and_then_def split: sum.splits)

lemma make_marker_rejected:
  "validate (coordinate a) = Some e \<Longrightarrow>
   make_marker validate (dict_of_DailyPlan p) c (dict_of_Activity a) = Inl e"
  by (simp add: make_marker_def coords_of_Activity and_then_def
      getitem_Activity getitem_DailyPlan)

lemma day_markers_rejected:
  assumes "a \<in> set (activities p)" and "validate (coordinate a) = Some e"
  shows "\<exists>e'. day_markers validate (dict_of_DailyPlan p) = Inl e'"
proof -
  have "\<exists>e'. for_each (make_marker validate (dict_of_DailyPlan p) (colors ! nat ((day p - 1) mod 19)))
          (map dict_of_Activity (activities p)) = Inl e'"
    using assms by (intro for_each_raises [where x = "dict_of_Activity a" and e = e])
      (simp_all add: make_marker_rejected)
  then show ?thesis
    by (auto simp add: day_markers_def and_then_def day_color_PInt getitem_DailyPlan
        simp del: day_color.simps)
qed

lemma compute_map_view_raises:
  assumes "a \<in> set (all_activities t)" and "validate (coordinate a) = Some e"
  shows "\<exists>e'. compute_map_view validate (dict_of_TripItinerary t) = Inl e'"
proof -
  obtain p where p: "p \<in> set (itinerary t)" "a \<in> set (activities p)"
    using assms(1) by (auto simp add: all_activities_def)
  obtain e1 where "day_markers validate (dict_of_DailyPlan p) = Inl e1"
    using day_markers_rejected [of a p validate e] p(2) assms(2) by blast
  then have m: "\<exists>e'. for_each (day_markers validate) (map dict_of_DailyPlan (itinerary t)) = Inl e'"
    using p(1) by (intro for_each_raises [where x = "dict_of_DailyPlan p" and e = e1]) simp_all
  obtain b bs where c: "all_activities t = b # bs"
    using assms(1) by (cases "all_activities t") auto
  show ?thesis
    using m c
    by (cases "validate (coordinate b)")
       (auto simp add: compute_map_view_def all_coords_TripItinerary and_then_def
          getitem_itinerary)
qed

text \<open>
  Claim C3, as amended. Let the result be the dictionaries of a \<open>TripItinerary\<close>. Without any
  activity there is no map but the message that no coordinates were returned. With an activity,
  and when folium accepts the coordinate pair of every activity as a location, the focal point
  of the map is the coordinate pair of the first activity in the order of the itinerary, which
  is the first activity of the first day only when that day has one; the zoom is 12, each
  activity has its marker and the bounds are all the pairs. When folium rejects the pair of the
  first activity, \<^verbatim>\<open>folium.Map\<close> raises that error, and when it rejects the pair of any
  activity the code raises: there is no map view.
\<close>

theorem map_view_focal_point:
  "(all_activities t = [] \<longrightarrow>
      compute_map_view validate (dict_of_TripItinerary t) =
        Inr (Empty ''No coordinates returned to display on the map.''))
   \<and> (all_activities t \<noteq> [] \<and> (\<forall>a \<in> set (all_activities t). validate (coordinate a) = None) \<longrightarrow>
      compute_map_view validate (dict_of_TripItinerary t) =
        Inr (Map \<lparr>focal_point = coordinate (hd (all_activities t)), zoom_start = 12,
                   markers = all_markers t, fit_bounds = map coordinate (all_activities t)\<rparr>))
   \<and> (all_activities t \<noteq> [] \<and> validate (coordinate (hd (all_activities t))) = Some e \<longrightarrow>
      compute_map_view validate (dict_of_TripItinerary t) = Inl e)
   \<and> ((\<exists>b \<in> set (all_activities t). validate (coordinate b) \<noteq> None) \<longrightarrow>
      (\<exists>e'. compute_map_view validate (dict_of_TripItinerary t) = Inl e'))
   \<and> (itinerary t = p # ps \<and> activities p = a # as \<longrightarrow> hd (all_activities t) = a)"
proof (intro conjI impI)
  show "compute_map_view validate (dict_of_TripItinerary t) =
        Inr (Empty ''No coordinates returned to display on the map.'')"
    if "all_activities t = []"
    using that by (rule compute_map_view_empty)
  show "compute_map_view validate (dict_of_TripItinerary t) =
        Inr (Map \<lparr>focal_point = coordinate (hd (all_activities t)), zoom_start = 12,
                   markers = all_markers t, fit_bounds = map coordinate (all_activities t)\<rparr>)"
    if "all_activities t \<noteq> [] \<and> (\<forall>a \<in> set (all_activities t). validate (coordinate a) = None)"
    using that by (intro compute_map_view_accepted) auto
  show "compute_map_view validate (dict_of_TripItinerary t) = Inl e"
    if "all_activities t \<noteq> [] \<and> validate (coordinate (hd (all_activities t))) = Some e"
    using that by (intro compute_map_view_rejected) auto
  show "\<exists>e'. compute_map_view validate (dict_of_TripItinerary t) = Inl e'"
    if "\<exists>b \<in> set (all_activities t). validate (coordinate b) \<noteq> None"
    using that compute_map_view_raises [of _ t validate] by blast
  show "hd (all_activities t) = a" if "itinerary t = p # ps \<and> activities p = a # as"
    using that by (simp add: all_activities_def)
qed


lemma all_activities_late_start:
  "all_activities trip_late_start =
     [\<lparr>name = ''Baga'', time = ''Morning'', description = ''Swim'',
       cost_estimate = ''Free'', latitude = ''15.55'', longitude = ''73.75''\<rparr>]"
  by (simp add: all_activities_def trip_late_start_def)

lemma all_activities_nan:
  "all_activities trip_nan =
     [\<lparr>name = ''Baga'', time = ''Morning'', description = ''Swim'',
       cost_estimate = ''Free'', latitude = ''nan'', longitude = ''73.75''\<rparr>]"
  by (simp add: all_activities_def trip_nan_def)

lemma all_activities_paris:
  "all_activities trip_paris =
     [\<lparr>name = ''Louvre'', time = ''Morning'', description = ''Art'',
       cost_estimate = ''Free'', latitude = ''48.8606'', longitude = ''2.3376''\<rparr>,
      \<lparr>name = ''Notre-Dame'', time = ''Afternoon'', description = ''Cathedral'',
       cost_estimate = ''Free'', latitude = ''48.853'', longitude = ''2.3499''\<rparr>,
      \<lparr>name = ''Eiffel Tower'', time = ''Morning'', description = ''View'',
       cost_estimate = ''Free'', latitude = ''48.8584'', longitude = ''2.2945''\<rparr>]"
  by (simp add: all_activities_def trip_paris_def)

text \<open>
  An itinerary without activities, the one for Paris, and one whose first coordinate is NaN,
  with the location check of folium.
\<close>

theorem map_view_focal_point_witness:
  "compute_map_view validate_location (dict_of_TripItinerary trip_no_activities) =
     Inr (Empty ''No coordinates returned to display on the map.'')
   \<and> compute_map_view validate_location (dict_of_TripItinerary trip_paris) =
     Inr (Map \<lparr>focal_point = (PFloat ''48.8606'', PFloat ''2.3376''), zoom_start = 12,
       markers = all_markers trip_paris,
       fit_bounds = [(PFloat ''48.8606'', PFloat ''2.3376''), (PFloat ''48.853'', PFloat ''2.3499''),
                     (PFloat ''48.8584'', PFloat ''2.2945'')]\<rparr>)
   \<and> hd (all_activities trip_paris) = hd (activities (hd (itinerary trip_paris)))
   \<and> compute_map_view validate_location (dict_of_TripItinerary trip_nan) =
     Inl (ValueError Contains_NaN)"
proof -
  have e: "all_activities trip_no_activities = []"
    by (simp add: all_activities_def trip_no_activities_def)
  have i: "itinerary trip_paris = hd (itinerary trip_paris) # tl (itinerary trip_paris) \<and>
      activities (hd (itinerary trip_paris)) =
        hd (activities (hd (itinerary trip_paris))) # tl (activities (hd (itinerary trip_paris)))"
    by (simp add: trip_paris_def)
  have n: "all_activities trip_paris \<noteq> [] \<and>
      (\<forall>a \<in> set (all_activities trip_paris). validate_location (coordinate a) = None)"
    by (simp add: all_activities_paris validate_location_def coordinate_def)
  note t = map_view_focal_point [of trip_paris validate_location "ValueError Contains_NaN"
      "hd (itinerary trip_paris)" "tl (itinerary trip_paris)"
      "hd (activities (hd (itinerary trip_paris)))" "tl (activities (hd (itinerary trip_paris)))"]
  have h: "hd (all_activities trip_paris) = hd (activities (hd (itinerary trip_paris)))"
    using t i by blast
  have m: "compute_map_view validate_location (dict_of_TripItinerary trip_paris) =
        Inr (Map \<lparr>focal_point = coordinate (hd (all_activities trip_paris)), zoom_start = 12,
                   markers = all_markers trip_paris,
                   fit_bounds = map coordinate (all_activities trip_paris)\<rparr>)"
    using t n by blast
  have z: "compute_map_view validate_location (dict_of_TripItinerary trip_no_activities) =
     Inr (Empty ''No coordinates returned to display on the map.'')"
    using map_view_focal_point [of trip_no_activities validate_location "ValueError Contains_NaN"
      "hd (itinerary trip_paris)" "[]" "hd (activities (hd (itinerary trip_paris)))" "[]"] e
    by blast
  have r: "all_activities trip_nan \<noteq> [] \<and>
      validate_location (coordinate (hd (all_activities trip_nan))) = Some (ValueError Contains_NaN)"
    by (simp add: all_activities_nan validate_location_def coordinate_def)
  have x: "compute_map_view validate_location (dict_of_TripItinerary trip_nan) =
      Inl (ValueError Contains_NaN)"
    using map_view_focal_point [of trip_nan validate_location "ValueError Contains_NaN"
      "hd (itinerary trip_paris)" "[]" "hd (activities (hd (itinerary trip_paris)))" "[]"] r
    by blast
  have c: "coordinate (hd (all_activities trip_paris)) = (PFloat ''48.8606'', PFloat ''2.3376'')"
    "map coordinate (all_activities trip_paris) =
       [(PFloat ''48.8606'', PFloat ''2.3376''), (PFloat ''48.853'', PFloat ''2.3499''),
        (PFloat ''48.8584'', PFloat ''2.2945'')]"
    by (simp_all add: all_activities_paris coordinate_def)
  show ?thesis using z m h c x by simp
qed

text \<open>
  Claim C3 as stated fails. In the first itinerary there is an activity and the first day,
  day 1, has none: the focal point is the coordinate pair of the first activity of day 2. In
  the second the only activity has the latitude NaN: \<^verbatim>\<open>folium.Map\<close> raises and there is no
  map view.
\<close>

theorem first_day_without_activity_counterexample:
  "all_activities trip_late_start \<noteq> []
   \<and> activities (hd (itinerary trip_late_start)) = []
   \<and> day (hd (itinerary trip_late_start)) = 1
   \<and> compute_map_view validate_location (dict_of_TripItinerary trip_late_start) =
     Inr (Map \<lparr>focal_point = (PFloat ''15.55'', PFloat ''73.75''), zoom_start = 12,
       markers = [\<lparr>position = (PFloat ''15.55'', PFloat ''73.75''),
                   popup_values = [PStr ''Baga'', PInt 2, PStr ''Morning'', PStr ''Free''],
                   tooltip_values = [PInt 2, PStr ''Baga''], icon_color = ''blue''\<rparr>],
       fit_bounds = [(PFloat ''15.55'', PFloat ''73.75'')]\<rparr>)
   \<and> coordinate (hd (activities (hd (tl (itinerary trip_late_start))))) =
       (PFloat ''15.55'', PFloat ''73.75'')
   \<and> all_activities trip_nan \<noteq> []
   \<and> compute_map_view validate_location (dict_of_TripItinerary trip_nan) =
       Inl (ValueError Contains_NaN)"
proof -
  have m: "all_markers trip_late_start =
      [\<lparr>position = (PFloat ''15.55'', PFloat ''73.75''),
        popup_values = [PStr ''Baga'', PInt 2, PStr ''Morning'', PStr ''Free''],
        tooltip_values = [PInt 2, PStr ''Baga''], icon_color = ''blue''\<rparr>]"
    by (simp add: all_markers_def trip_late_start_def marker_of_def coordinate_def colors_def)
  have c: "compute_map_view validate_location (dict_of_TripItinerary trip_late_start) =
     Inr (Map \<lparr>focal_point = (PFloat ''15.55'', PFloat ''73.75''), zoom_start = 12,
       markers = all_markers trip_late_start,
       fit_bounds = [(PFloat ''15.55'', PFloat ''73.75'')]\<rparr>)"
    using compute_map_view_accepted [of trip_late_start validate_location]
    by (simp add: all_activities_late_start coordinate_def validate_location_def)
  have x: "compute_map_view validate_location (dict_of_TripItinerary trip_nan) =
      Inl (ValueError Contains_NaN)"
    using compute_map_view_rejected [of trip_nan validate_location "ValueError Contains_NaN"]
    by (simp add: all_activities_nan coordinate_def validate_location_def)
  show ?thesis using c m x all_activities_late_start all_activities_nan
    by (simp add: trip_late_start_def coordinate_def)
qed

end
